theory Spec2Isabelle
  imports Main "HOL-Library.Char_ord" "HOL-Library.List_Lexorder"
begin

section \<open>Values, strings and paths\<close>

text \<open>
  \<^verbatim>\<open>run_evaluation.py\<close> works on values loaded from JSON. A Python value is modelled by
  the datatype \<open>json\<close>; Python's \<open>None\<close> is \<open>JNull\<close> (what \<open>json.loads\<close> makes of
  \<open>null\<close>), a \<open>dict\<close> is the list of its items in insertion order. Floats are opaque
  (the type parameter \<open>'f\<close>): the program never computes with one except through
  \<open>sum\<close> and truthiness, which the environment supplies.

  Strings are lists of characters with code points below 256, ordered by code point
  as Python orders \<open>str\<close>.
\<close>

datatype 'f json =
    JNull
  | JBool bool
  | JInt int
  | JFloat 'f
  | JString string
  | JArray "'f json list"
  | JObject "(string \<times> 'f json) list"

datatype 'f pynum = PInt int | PFloat 'f

datatype exn =
    TypeError
  | AttributeError
  | OverflowError
  | OSError string
  | Other_exception string

text \<open>\<open>str.lower\<close> on code points below 256: A-Z and the accented capitals move by 32.\<close>

definition lower_char :: "char \<Rightarrow> char" where
  "lower_char c =
     (let n = (of_char c :: nat)
      in if (65 \<le> n \<and> n \<le> 90) \<or> (192 \<le> n \<and> n \<le> 222 \<and> n \<noteq> 215)
         then char_of (n + 32) else c)"

definition lower :: "string \<Rightarrow> string" where
  "lower s = map lower_char s"

text \<open>\<open>s.endswith(x)\<close> and \<open>s.endswith((x1, ..., xn))\<close>.\<close>

definition endswith :: "string \<Rightarrow> string \<Rightarrow> bool" where
  "endswith s x = (length x \<le> length s \<and> drop (length s - length x) s = x)"

definition endswith_any :: "string \<Rightarrow> string list \<Rightarrow> bool" where
  "endswith_any s xs = list_ex (endswith s) xs"

text \<open>\<open>s.find(c)\<close> and \<open>s.rfind(c)\<close> for a one-character pattern: the index, or -1.\<close>

fun find_from :: "char \<Rightarrow> string \<Rightarrow> int \<Rightarrow> int" where
  "find_from c [] i = - 1"
| "find_from c (x # xs) i = (if x = c then i else find_from c xs (i + 1))"

fun rfind_from :: "char \<Rightarrow> string \<Rightarrow> int \<Rightarrow> int" where
  "rfind_from c [] i = - 1"
| "rfind_from c (x # xs) i =
     (let r = rfind_from c xs (i + 1)
      in if r \<noteq> - 1 then r else if x = c then i else - 1)"

definition str_find :: "string \<Rightarrow> char \<Rightarrow> int" where
  "str_find s c = find_from c s 0"

definition str_rfind :: "string \<Rightarrow> char \<Rightarrow> int" where
  "str_rfind s c = rfind_from c s 0"

text \<open>The slice \<open>s[a:b]\<close>: a negative index counts from the end, both are clipped.\<close>

definition slice_index :: "nat \<Rightarrow> int \<Rightarrow> nat" where
  "slice_index n i = (if i < 0 then nat (max (int n + i) 0) else min (nat i) n)"

definition py_slice :: "string \<Rightarrow> int \<Rightarrow> int \<Rightarrow> string" where
  "py_slice s a b =
     (let lo = slice_index (length s) a; hi = slice_index (length s) b
      in take (hi - lo) (drop lo s))"

text \<open>\<open>str.strip()\<close>: the white space among the code points below 256.\<close>

definition is_space :: "char \<Rightarrow> bool" where
  "is_space c =
     (let n = (of_char c :: nat)
      in (9 \<le> n \<and> n \<le> 13) \<or> (28 \<le> n \<and> n \<le> 32) \<or> n = 133 \<or> n = 160)"

definition strip :: "string \<Rightarrow> string" where
  "strip s = rev (dropWhile is_space (rev (dropWhile is_space s)))"

text \<open>\<open>os.path.join(a, b)\<close>, \<open>os.path.isabs\<close> and the extension of \<open>os.path.splitext\<close> (POSIX).\<close>

definition path_join :: "string \<Rightarrow> string \<Rightarrow> string" where
  "path_join a b =
     (if b \<noteq> [] \<and> hd b = CHR ''/'' then b
      else if a = [] \<or> last a = CHR ''/'' then a @ b
      else a @ ''/'' @ b)"

definition isabs :: "string \<Rightarrow> bool" where
  "isabs p = (p \<noteq> [] \<and> hd p = CHR ''/'')"

definition splitext_ext :: "string \<Rightarrow> string" where
  "splitext_ext p =
     (let sepIndex = str_rfind p CHR ''/''; dotIndex = str_rfind p CHR ''.''
      in if dotIndex > sepIndex
            \<and> list_ex (\<lambda>c. c \<noteq> CHR ''.'') (py_slice p (sepIndex + 1) dotIndex)
         then drop (nat dotIndex) p else [])"

text \<open>\<open>d.get(k)\<close> and \<open>d.get(k, default)\<close> on the items of a dict.\<close>

definition dict_get :: "(string \<times> 'f json) list \<Rightarrow> string \<Rightarrow> 'f json" where
  "dict_get d k = (case map_of d k of None \<Rightarrow> JNull | Some v \<Rightarrow> v)"

definition dict_get_default :: "(string \<times> 'f json) list \<Rightarrow> string \<Rightarrow> 'f json \<Rightarrow> 'f json" where
  "dict_get_default d k dflt = (case map_of d k of None \<Rightarrow> dflt | Some v \<Rightarrow> v)"

definition str_truthy :: "string option \<Rightarrow> bool" where
  "str_truthy x = (case x of None \<Rightarrow> False | Some s \<Rightarrow> s \<noteq> [])"

section \<open>The environment\<close>

text \<open>
  What the program reads from outside and what it prints or sends is explicit. The
  record \<open>world\<close> holds the file system, the JSON decoder and the model endpoint as
  functions (fixed during a run); every function of the program returns, next to its
  value, the list of events it caused, in order. A \<open>print\<close> is the event \<open>Print\<close> with
  the line's format as constructor and the interpolated values as arguments; a call of
  \<open>client.chat.completions.create\<close> is the event \<open>Request\<close> with the message content
  (model \<open>gpt-4.1\<close>, temperature 0 and 250 tokens are constants of every call).

  The rubric \<open>BENCHMARK_GUIDELINES\<close> and the four closing instructions hold characters
  beyond code point 255, so they are constructors of \<open>content_part\<close>, not strings.
\<close>

datatype instruction =
    Instr_image_single
  | Instr_image_multiple
  | Instr_text_single
  | Instr_text_multiple

datatype 'f content_part =
    Text_guidelines
  | Text_part string
  | Text_question "'f json"
  | Image_url string
  | Text_instruction instruction

datatype file_read =
    File_not_found
  | File_error string
  | File_base64 string

datatype api_result =
    Api_content string
  | Api_openai_error string
  | Api_other_error string

datatype 'f loads_result =
    Parsed "'f json"
  | Decode_error string
  | Other_error string

datatype 'f load_result =
    Loaded "'f json"
  | Load_not_found
  | Load_decode_error
  | Load_raised exn

record 'f result_entry =
  question_id :: "'f json"
  subject :: "'f json"
  question_raw :: "'f json"
  question_type :: "string option"
  question_path_or_text :: "'f json"
  answer_image_paths :: "string list"
  num_answer_images :: nat
  category_scores :: "'f json"
  total_score :: "'f pynum"
  error_message :: "string option"

datatype 'f line =
    Image_not_found string
  | Image_encode_error string string
  | No_valid_json string
  | Json_decode_error string string
  | Parse_unexpected string
  | Questions_file_not_found string
  | Questions_file_not_json string
  | Skipping_item "'f json"
  | Processing_question "'f json"
  | Answer_folder_not_found string
  | No_answer_images string
  | Question_image_not_found string
  | Type_image_single
  | Type_image_multiple
  | Type_text_single
  | Type_text_multiple
  | Error_during_evaluation string
  | Scores_line "'f json" "'f pynum"
  | Results_saved string
  | Error_saving string string

datatype 'f event =
    Print "'f line"
  | Request "'f content_part list"
  | Sleep
  | Write_output string "'f result_entry list"

record 'f world =
  script_dir :: string
  float_truthy :: "'f \<Rightarrow> bool"
  float_sum :: "'f json list \<Rightarrow> 'f option"
  str_of :: "'f json \<Rightarrow> string"
  isdir :: "string \<Rightarrow> bool"
  listdir :: "string \<Rightarrow> string + string list"
  isfile :: "string \<Rightarrow> bool"
  read_b64 :: "string \<Rightarrow> file_read"
  json_loads :: "string \<Rightarrow> 'f loads_result"
  chat_create :: "'f content_part list \<Rightarrow> api_result"
  load_json_file :: "string \<Rightarrow> 'f load_result"
  write_json :: "string \<Rightarrow> string option"

record args =
  questions_file :: string
  answers_dir :: string
  output_file :: string

text \<open>Truthiness (\<open>if v:\<close>, \<open>not v\<close>) and \<open>str(v)\<close>.\<close>

fun truthy :: "'f world \<Rightarrow> 'f json \<Rightarrow> bool" where
  "truthy w JNull = False"
| "truthy w (JBool b) = b"
| "truthy w (JInt n) = (n \<noteq> 0)"
| "truthy w (JFloat x) = float_truthy w x"
| "truthy w (JString s) = (s \<noteq> [])"
| "truthy w (JArray xs) = (xs \<noteq> [])"
| "truthy w (JObject kvs) = (kvs \<noteq> [])"

definition py_str :: "'f world \<Rightarrow> 'f json \<Rightarrow> string" where
  "py_str w v = (case v of JString s \<Rightarrow> s | _ \<Rightarrow> str_of w v)"

text \<open>
  \<open>sum(values)\<close> starts from the integer 0 and adds the values in order. A value that
  is no number raises \<open>TypeError\<close>; integers and booleans add up exactly; from the first
  float on the total is a float, and adding a float and an integer beyond the range of
  floats raises \<open>OverflowError\<close>. The float arithmetic is the environment's: \<open>float_sum\<close>
  gives the float total of the numbers added so far, or \<open>None\<close> when adding the last of
  them overflows. \<open>sum_from\<close> has the values already added and those still to add.
\<close>

fun is_number :: "'f json \<Rightarrow> bool" where
  "is_number (JInt n) = True"
| "is_number (JBool b) = True"
| "is_number (JFloat x) = True"
| "is_number _ = False"

fun is_integer :: "'f json \<Rightarrow> bool" where
  "is_integer (JInt n) = True"
| "is_integer (JBool b) = True"
| "is_integer _ = False"

fun int_value :: "'f json \<Rightarrow> int" where
  "int_value (JInt n) = n"
| "int_value (JBool b) = (if b then 1 else 0)"
| "int_value _ = 0"

fun sum_from :: "'f world \<Rightarrow> 'f json list \<Rightarrow> 'f json list \<Rightarrow> exn + 'f pynum" where
  "sum_from w added [] =
     (if list_all is_integer added then Inr (PInt (sum_list (map int_value added)))
      else (case float_sum w added of
              None \<Rightarrow> Inl OverflowError
            | Some x \<Rightarrow> Inr (PFloat x)))"
| "sum_from w added (v # rest) =
     (if \<not> is_number v then Inl TypeError
      else if list_all is_integer (added @ [v]) then sum_from w (added @ [v]) rest
      else (case float_sum w (added @ [v]) of
              None \<Rightarrow> Inl OverflowError
            | Some x \<Rightarrow> sum_from w (added @ [v]) rest))"

definition py_sum :: "'f world \<Rightarrow> 'f json list \<Rightarrow> exn + 'f pynum" where
  "py_sum w vs = sum_from w [] vs"

section \<open>Helper functions\<close>

text \<open>\<open>encode_image_to_data_url\<close> (lines 62-76).\<close>

definition encode_image_to_data_url ::
  "'f world \<Rightarrow> string \<Rightarrow> string option \<times> 'f event list" where
  "encode_image_to_data_url w image_path =
     (case read_b64 w image_path of
        File_base64 b64_string \<Rightarrow>
          (let ext = lower (splitext_ext image_path);
               mime_type = (if ext \<in> set [''.jpg'', ''.jpeg''] then ''image/jpeg''
                            else ''image/png'')
           in (Some (''data:'' @ mime_type @ '';base64,'' @ b64_string), []))
      | File_not_found \<Rightarrow> (None, [Print (Image_not_found image_path)])
      | File_error e \<Rightarrow> (None, [Print (Image_encode_error image_path e)]))"

text \<open>\<open>parse_gpt_response\<close> (lines 78-95).\<close>

definition parse_gpt_response :: "'f world \<Rightarrow> string \<Rightarrow> 'f json \<times> 'f event list" where
  "parse_gpt_response w response_content =
     (let start_index = str_find response_content CHR ''{'';
          end_index = str_rfind response_content CHR ''}'' + 1
      in if start_index \<noteq> - 1 \<and> end_index \<noteq> - 1 \<and> end_index > start_index
         then (case json_loads w (py_slice response_content start_index end_index) of
                 Parsed v \<Rightarrow> (v, [])
               | Decode_error e \<Rightarrow> (JNull, [Print (Json_decode_error response_content e)])
               | Other_error e \<Rightarrow> (JNull, [Print (Parse_unexpected e)]))
         else (JNull, [Print (No_valid_json response_content)]))"

section \<open>Evaluation functions\<close>

text \<open>
  The four evaluation functions end in the same \<open>try\<close> block (lines 123-136, 168-181,
  205-218, 244-258): send the request, strip the reply, parse it, and return
  \<open>scores, None if scores else "Failed to parse scores from GPT response."\<close>. An
  exception of the call, or of reading the reply's content, becomes an error message.
  The block is \<open>request_scores\<close>.
\<close>

definition request_scores ::
  "'f world \<Rightarrow> 'f content_part list \<Rightarrow> ('f json \<times> string option) \<times> 'f event list" where
  "request_scores w content_parts =
     (case chat_create w content_parts of
        Api_content c \<Rightarrow>
          (let content = strip c;
               (scores, printed) = parse_gpt_response w content
           in ((scores,
                if truthy w scores then None
                else Some ''Failed to parse scores from GPT response.''),
               Request content_parts # printed))
      | Api_openai_error e \<Rightarrow>
          ((JNull, Some (''OpenAI API error: '' @ e)), [Request content_parts])
      | Api_other_error e \<Rightarrow>
          ((JNull, Some (''Unexpected error during API call: '' @ e)),
           [Request content_parts]))"

text \<open>\<open>evaluate_image_q_single_a\<close> (lines 98-136).\<close>

definition evaluate_image_q_single_a ::
  "'f world \<Rightarrow> string \<Rightarrow> string \<Rightarrow> ('f json \<times> string option) \<times> 'f event list" where
  "evaluate_image_q_single_a w question_image_path answer_image_path =
     (let (q_url, printed_q) = encode_image_to_data_url w question_image_path;
          (a_url, printed_a) = encode_image_to_data_url w answer_image_path
      in if \<not> str_truthy q_url \<or> \<not> str_truthy a_url
         then ((JNull, Some ''Failed to encode one or both images.''), printed_q @ printed_a)
         else (let (r, evs) = request_scores w
                      [Text_guidelines,
                       Text_part ''Problem image:'',
                       Image_url (the q_url),
                       Text_part ''Answer screenshot:'',
                       Image_url (the a_url),
                       Text_instruction Instr_image_single]
               in (r, printed_q @ printed_a @ evs)))"

text \<open>
  The loop over the answer images (lines 151-156 and 228-233): the image parts in
  order, or the first path that could not be encoded.
\<close>

fun encode_answers ::
  "'f world \<Rightarrow> string list \<Rightarrow> (string + 'f content_part list) \<times> 'f event list" where
  "encode_answers w [] = (Inr [], [])"
| "encode_answers w (ans_path # rest) =
     (let (ans_url, printed) = encode_image_to_data_url w ans_path
      in if str_truthy ans_url
         then (let (r, printed_rest) = encode_answers w rest
               in (case r of
                     Inl bad \<Rightarrow> (Inl bad, printed @ printed_rest)
                   | Inr parts \<Rightarrow> (Inr (Image_url (the ans_url) # parts), printed @ printed_rest)))
         else (Inl ans_path, printed))"

text \<open>\<open>evaluate_image_q_multiple_a\<close> (lines 138-181).\<close>

definition evaluate_image_q_multiple_a ::
  "'f world \<Rightarrow> string \<Rightarrow> string list \<Rightarrow> ('f json \<times> string option) \<times> 'f event list" where
  "evaluate_image_q_multiple_a w question_image_path ans_paths =
     (let (q_url, printed_q) = encode_image_to_data_url w question_image_path
      in if \<not> str_truthy q_url
         then ((JNull, Some ''Failed to encode question image.''), printed_q)
         else (let (r, printed_a) = encode_answers w ans_paths
               in (case r of
                     Inl ans_path \<Rightarrow>
                       ((JNull, Some (''Failed to encode an answer image: '' @ ans_path)),
                        printed_q @ printed_a)
                   | Inr parts \<Rightarrow>
                       (let (res, evs) = request_scores w
                              ([Text_guidelines,
                                Text_part ''Problem image:'',
                                Image_url (the q_url),
                                Text_part ''Student visual responses (multiple answer images follow):'']
                               @ parts @ [Text_instruction Instr_image_multiple])
                        in (res, printed_q @ printed_a @ evs)))))"

text \<open>\<open>evaluate_text_q_single_a\<close> (lines 183-218).\<close>

definition evaluate_text_q_single_a ::
  "'f world \<Rightarrow> 'f json \<Rightarrow> string \<Rightarrow> ('f json \<times> string option) \<times> 'f event list" where
  "evaluate_text_q_single_a w question_text answer_image_path =
     (let (a_url, printed_a) = encode_image_to_data_url w answer_image_path
      in if \<not> str_truthy a_url
         then ((JNull, Some ''Failed to encode answer image.''), printed_a)
         else (let (r, evs) = request_scores w
                      [Text_guidelines,
                       Text_question question_text,
                       Text_part ''Answer screenshot:'',
                       Image_url (the a_url),
                       Text_instruction Instr_text_single]
               in (r, printed_a @ evs)))"

text \<open>\<open>evaluate_text_q_multiple_a\<close> (lines 220-258).\<close>

definition evaluate_text_q_multiple_a ::
  "'f world \<Rightarrow> 'f json \<Rightarrow> string list \<Rightarrow> ('f json \<times> string option) \<times> 'f event list" where
  "evaluate_text_q_multiple_a w question_text ans_paths =
     (let (r, printed_a) = encode_answers w ans_paths
      in (case r of
            Inl ans_path \<Rightarrow>
              ((JNull, Some (''Failed to encode an answer image: '' @ ans_path)), printed_a)
          | Inr parts \<Rightarrow>
              (let (res, evs) = request_scores w
                     ([Text_guidelines,
                       Text_question question_text,
                       Text_part ''Student visual responses (multiple answer images follow):'']
                      @ parts @ [Text_instruction Instr_text_multiple])
               in (res, printed_a @ evs))))"

section \<open>The batch runner\<close>

text \<open>
  \<open>main\<close> (lines 261-382) is one long function; its loop body is given in the parts
  it is made of, in the order of the source. The result entry is the dictionary of
  lines 294-305, updated field by field as the source does.
\<close>

definition new_entry :: "'f json \<Rightarrow> 'f json \<Rightarrow> 'f json \<Rightarrow> 'f result_entry" where
  "new_entry qid subj question_content =
     \<lparr> question_id = qid,
       subject = subj,
       question_raw = question_content,
       question_type = None,
       question_path_or_text = JNull,
       answer_image_paths = [],
       num_answer_images = 0,
       category_scores = JNull,
       total_score = PInt 0,
       error_message = None \<rparr>"

text \<open>The answer images of a question (lines 314-318), from the names \<open>os.listdir\<close> returned.\<close>

definition is_answer_image :: "string \<Rightarrow> bool" where
  "is_answer_image f =
     endswith_any (lower f) [''.png'', ''.jpg'', ''.jpeg'', ''.gif'', ''.bmp'']"

definition answer_image_files_of :: "string \<Rightarrow> string list \<Rightarrow> string list" where
  "answer_image_files_of answer_folder_path names =
     sort (map (path_join answer_folder_path) (filter is_answer_image names))"

text \<open>The modality test of line 328; \<open>str_value\<close> reads a value known to be a \<open>str\<close>.\<close>

fun is_image_question :: "'f json \<Rightarrow> bool" where
  "is_image_question (JString s) = endswith_any (lower s) [''.png'', ''.jpg'', ''.jpeg'']"
| "is_image_question _ = False"

fun str_value :: "'f json \<Rightarrow> string" where
  "str_value (JString s) = s"
| "str_value _ = []"

text \<open>
  Lines 330-354: the modality is recorded, then one of the four evaluation functions
  runs. The second component is \<open>None\<close> at the \<open>continue\<close> of line 338 (the question's
  image is missing: the entry is appended as it is) and the pair \<open>scores, err\<close> otherwise.
\<close>

definition evaluate_question ::
  "'f world \<Rightarrow> 'f json \<Rightarrow> string list \<Rightarrow> 'f result_entry
   \<Rightarrow> ('f result_entry \<times> ('f json \<times> string option) option) \<times> 'f event list" where
  "evaluate_question w question_content answer_image_files result_entry =
     (if is_image_question question_content
      then (let full_question_image_path = path_join (script_dir w) (str_value question_content);
                entry = result_entry\<lparr> question_type := Some ''Image'',
                                      question_path_or_text := JString full_question_image_path \<rparr>
            in if \<not> isfile w full_question_image_path
               then ((entry\<lparr> error_message := Some ''Question image file not found.'' \<rparr>, None),
                     [Print (Question_image_not_found full_question_image_path)])
               else if length answer_image_files = 1
               then (let (r, evs) = evaluate_image_q_single_a w full_question_image_path
                                      (hd answer_image_files)
                     in ((entry, Some r), Print Type_image_single # evs))
               else (let (r, evs) = evaluate_image_q_multiple_a w full_question_image_path
                                      answer_image_files
                     in ((entry, Some r), Print Type_image_multiple # evs)))
      else (let entry = result_entry\<lparr> question_type := Some ''Text'',
                                      question_path_or_text := question_content \<rparr>
            in if length answer_image_files = 1
               then (let (r, evs) = evaluate_text_q_single_a w question_content
                                      (hd answer_image_files)
                     in ((entry, Some r), Print Type_text_single # evs))
               else (let (r, evs) = evaluate_text_q_multiple_a w question_content
                                      answer_image_files
                     in ((entry, Some r), Print Type_text_multiple # evs))))"

text \<open>
  Lines 356-364: the outcome is written into the entry. \<open>sum(scores.values())\<close> is not
  guarded: its \<open>TypeError\<close> leaves \<open>main\<close>.
\<close>

definition record_outcome ::
  "'f world \<Rightarrow> 'f result_entry \<Rightarrow> 'f json \<Rightarrow> string option
   \<Rightarrow> (exn + 'f result_entry) \<times> 'f event list" where
  "record_outcome w result_entry scores err =
     (if str_truthy err
      then (Inr (result_entry\<lparr> error_message := err \<rparr>),
            [Print (Error_during_evaluation (the err))])
      else if truthy w scores
      then (case (case scores of JObject kvs \<Rightarrow> py_sum w (map snd kvs) | _ \<Rightarrow> Inr (PInt 0)) of
              Inl e \<Rightarrow> (Inl e, [])
            | Inr summed \<Rightarrow>
                (Inr (result_entry\<lparr> category_scores := scores, total_score := summed \<rparr>),
                 [Print (Scores_line scores summed)]))
      else (Inr (result_entry\<lparr> error_message :=
                   Some ''Evaluation completed but no scores were returned.'' \<rparr>), []))"

text \<open>
  The loop body (lines 284-367) for one item of the dataset: an exception that leaves
  \<open>main\<close>, or the entry appended to \<open>all_results\<close> (\<open>None\<close> when the item is skipped).
  An item that is no \<open>dict\<close> has no \<open>get\<close>.
\<close>

definition process_item ::
  "'f world \<Rightarrow> args \<Rightarrow> 'f json \<Rightarrow> (exn + 'f result_entry option) \<times> 'f event list" where
  "process_item w a question_item =
     (case question_item of
        JObject d \<Rightarrow>
          (let qid = dict_get d ''id'';
               question_content = dict_get d ''question'';
               subj = dict_get_default d ''subject'' (JString ''N/A'')
           in if \<not> truthy w qid \<or> \<not> truthy w question_content
              then (Inr None, [Print (Skipping_item question_item)])
              else
               (let result_entry = new_entry qid subj question_content;
                    answer_folder_path = path_join (answers_dir a) (py_str w qid)
                in if \<not> isdir w answer_folder_path
                   then (Inr (Some (result_entry\<lparr> error_message := Some ''Answer folder not found.'' \<rparr>)),
                         [Print (Processing_question qid),
                          Print (Answer_folder_not_found answer_folder_path)])
                   else
                    (case listdir w answer_folder_path of
                       Inl e \<Rightarrow> (Inl (OSError e), [Print (Processing_question qid)])
                     | Inr names \<Rightarrow>
                        (let answer_image_files = answer_image_files_of answer_folder_path names;
                             entry = result_entry\<lparr> answer_image_paths := answer_image_files,
                                                   num_answer_images := length answer_image_files \<rparr>
                         in if answer_image_files = []
                            then (Inr (Some (entry\<lparr> error_message := Some ''No answer images found.'' \<rparr>)),
                                  [Print (Processing_question qid),
                                   Print (No_answer_images answer_folder_path)])
                            else
                             (let ((entry', r), evs) =
                                    evaluate_question w question_content answer_image_files entry
                              in (case r of
                                    None \<Rightarrow> (Inr (Some entry'), Print (Processing_question qid) # evs)
                                  | Some (scores, err) \<Rightarrow>
                                      (let (out, evs') = record_outcome w entry' scores err
                                       in (case out of
                                             Inl e \<Rightarrow>
                                               (Inl e, Print (Processing_question qid) # evs @ evs')
                                           | Inr entry'' \<Rightarrow>
                                               (Inr (Some entry''),
                                                Print (Processing_question qid) # evs @ evs' @ [Sleep])))))))))
      | _ \<Rightarrow> (Inl AttributeError, []))"

text \<open>
  A run: the exception that ended it (if any), the entries appended to \<open>all_results\<close>
  and the events, in order.
\<close>

record 'f outcome =
  raised :: "exn option"
  all_results :: "'f result_entry list"
  events :: "'f event list"

fun run_items :: "'f world \<Rightarrow> args \<Rightarrow> 'f json list \<Rightarrow> 'f outcome" where
  "run_items w a [] = \<lparr> raised = None, all_results = [], events = [] \<rparr>"
| "run_items w a (question_item # rest) =
     (case process_item w a question_item of
        (Inl e, evs) \<Rightarrow> \<lparr> raised = Some e, all_results = [], events = evs \<rparr>
      | (Inr appended, evs) \<Rightarrow>
          (let later = run_items w a rest
           in \<lparr> raised = raised later,
                all_results = (case appended of None \<Rightarrow> [] | Some entry \<Rightarrow> [entry])
                              @ all_results later,
                events = evs @ events later \<rparr>))"

text \<open>
  \<open>for question_item in questions_data\<close>: a list gives its elements, a dict its keys, a
  string its characters; nothing else can be iterated.
\<close>

fun iter_items :: "'f json \<Rightarrow> exn + 'f json list" where
  "iter_items (JArray xs) = Inr xs"
| "iter_items (JObject kvs) = Inr (map (\<lambda>kv. JString (fst kv)) kvs)"
| "iter_items (JString s) = Inr (map (\<lambda>c. JString [c]) s)"
| "iter_items _ = Inl TypeError"

text \<open>
  \<open>main\<close>: load the dataset (lines 271-279; only \<open>FileNotFoundError\<close> and
  \<open>JSONDecodeError\<close> are caught), run the loop, write the results (lines 372-382;
  \<open>Write_output\<close> is a completed \<open>json.dump\<close>). The arguments are those \<open>argparse\<close>
  returned. The module itself raises \<open>RuntimeError\<close> when it is loaded without
  \<open>OPENAI_API_KEY\<close> (lines 12-14); a run of \<open>main\<close> starts after that.
\<close>

definition main :: "'f world \<Rightarrow> args \<Rightarrow> 'f outcome" where
  "main w a =
     (case load_json_file w (questions_file a) of
        Load_not_found \<Rightarrow>
          \<lparr> raised = None, all_results = [],
            events = [Print (Questions_file_not_found (questions_file a))] \<rparr>
      | Load_decode_error \<Rightarrow>
          \<lparr> raised = None, all_results = [],
            events = [Print (Questions_file_not_json (questions_file a))] \<rparr>
      | Load_raised e \<Rightarrow> \<lparr> raised = Some e, all_results = [], events = [] \<rparr>
      | Loaded questions_data \<Rightarrow>
          (case iter_items questions_data of
             Inl e \<Rightarrow> \<lparr> raised = Some e, all_results = [], events = [] \<rparr>
           | Inr items \<Rightarrow>
               (let run = run_items w a items
                in if raised run \<noteq> None then run
                   else (let output_file_path =
                               (if isabs (output_file a) then output_file a
                                else path_join (script_dir w) (output_file a))
                         in (case write_json w output_file_path of
                               None \<Rightarrow>
                                 run\<lparr> events := events run
                                        @ [Write_output output_file_path (all_results run),
                                           Print (Results_saved output_file_path)] \<rparr>
                             | Some e \<Rightarrow>
                                 run\<lparr> events := events run
                                        @ [Print (Error_saving output_file_path e)] \<rparr>)))))"

section \<open>Reading the events\<close>

text \<open>The requests sent and the output files written, among a list of events.\<close>

fun requests :: "'f event list \<Rightarrow> 'f content_part list list" where
  "requests [] = []"
| "requests (Request parts # evs) = parts # requests evs"
| "requests (ev # evs) = requests evs"

fun written :: "'f event list \<Rightarrow> (string \<times> 'f result_entry list) list" where
  "written [] = []"
| "written (Write_output path entries # evs) = (path, entries) # written evs"
| "written (ev # evs) = written evs"

text \<open>
  Two abbreviations for the statements about the loop body: the item has an \<open>id\<close> and
  a \<open>question\<close> that are not falsy (the test of line 288), and the answer folder of the
  item (line 307).
\<close>

definition valid_item :: "'f world \<Rightarrow> (string \<times> 'f json) list \<Rightarrow> bool" where
  "valid_item w d \<longleftrightarrow> truthy w (dict_get d ''id'') \<and> truthy w (dict_get d ''question'')"

definition answer_folder :: "'f world \<Rightarrow> args \<Rightarrow> (string \<times> 'f json) list \<Rightarrow> string" where
  "answer_folder w a d = path_join (answers_dir a) (py_str w (dict_get d ''id''))"

text \<open>
  The invariant of an entry, in the words of the specification: \<open>total_score\<close> is the sum
  of the values of \<open>category_scores\<close> when that is an object of scores, and 0 otherwise.
\<close>

definition total_score_ok :: "'f world \<Rightarrow> 'f result_entry \<Rightarrow> bool" where
  "total_score_ok w e =
     (case category_scores e of
        JObject kvs \<Rightarrow> py_sum w (map snd kvs) = Inr (total_score e)
      | _ \<Rightarrow> total_score e = PInt 0)"

section \<open>An example environment\<close>

text \<open>
  The environment of the examples. The program lives in \<open>/repo\<close>; the answers are under
  \<open>/repo/data\<close>: folder \<open>q1\<close> holds one image and a text file, \<open>q2\<close> two images, \<open>q3\<close>
  and \<open>q5\<close> one image each, \<open>q4\<close> no image, and there is no folder \<open>q9\<close>. The one question
  image that exists is \<open>/repo/fig_ok.png\<close>. The model's reply depends on the question:
  to question \<open>empty\<close> it replies \<open>{}\<close>, to question \<open>quoted\<close> an object whose score is a
  string, and to any other question five scores inside a sentence. \<open>example_loads\<close> is
  \<open>json.loads\<close> on the texts that occur. There are two datasets, \<open>/repo/data.json\<close> and
  \<open>/repo/quoted.json\<close>.
\<close>

definition example_images :: "string list" where
  "example_images =
     [''/repo/data/q1/a.png'', ''/repo/data/q2/b.JPG'', ''/repo/data/q2/a.gif'',
      ''/repo/data/q3/a.png'', ''/repo/data/q5/only.bmp'', ''/repo/fig_ok.png'']"

definition example_listdir :: "string \<Rightarrow> string + string list" where
  "example_listdir p =
     (if p = ''/repo/data/q1'' then Inr [''notes.txt'', ''a.png'']
      else if p = ''/repo/data/q2'' then Inr [''b.JPG'', ''a.gif'', ''readme.md'']
      else if p = ''/repo/data/q3'' then Inr [''a.png'']
      else if p = ''/repo/data/q4'' then Inr [''notes.txt'']
      else if p = ''/repo/data/q5'' then Inr [''only.bmp'']
      else Inl ''No such file or directory'')"

definition example_loads :: "string \<Rightarrow> unit loads_result" where
  \<open>example_loads s =
     (if s = ''{}'' then Parsed (JObject [])
      else if s = ''{"1": "3"}'' then Parsed (JObject [(''1'', JString ''3'')])
      else if s = ''{"1":3,"2":4,"3":2,"4":5,"5":1}''
      then Parsed (JObject [(''1'', JInt 3), (''2'', JInt 4), (''3'', JInt 2),
                            (''4'', JInt 5), (''5'', JInt 1)])
      else if s = ''{"a": {"b":1}}''
      then Parsed (JObject [(''a'', JObject [(''b'', JInt 1)])])
      else Decode_error ''Expecting value'')\<close>

definition example_reply :: "unit content_part list \<Rightarrow> api_result" where
  \<open>example_reply parts =
     (if Text_question (JString ''empty'') \<in> set parts then Api_content ''{}''
      else if Text_question (JString ''quoted'') \<in> set parts then Api_content ''{"1": "3"}''
      else Api_content ''Here are the scores: {"1":3,"2":4,"3":2,"4":5,"5":1} thanks'')\<close>

definition example_dataset :: "unit json" where
  "example_dataset =
     JArray
       [JObject [(''id'', JString ''q1''), (''question'', JString ''What is 2+3?'')],
        JObject [(''id'', JString ''q9''), (''question'', JString ''What is 7 times 8?'')],
        JObject [(''id'', JString []), (''question'', JString ''no id'')],
        JObject [(''id'', JString ''q4''), (''question'', JString ''fig_ok.png'')],
        JObject [(''id'', JString ''q2''), (''question'', JString ''fig1.png''),
                 (''subject'', JString ''math'')],
        JObject [(''id'', JString ''q3''), (''question'', JString ''fig_ok.png'')],
        JObject [(''id'', JString ''q5''), (''question'', JString ''drawing.GIF'')]]"

definition quoted_dataset :: "unit json" where
  "quoted_dataset =
     JArray
       [JObject [(''id'', JString ''q1''), (''question'', JString ''quoted'')],
        JObject [(''id'', JString ''q3''), (''question'', JString ''What is 2+3?'')]]"

definition example_world :: "unit world" where
  "example_world =
     \<lparr> script_dir = ''/repo'',
       float_truthy = (\<lambda>x. False),
       float_sum = (\<lambda>vs. Some ()),
       str_of = (\<lambda>v. ''?''),
       isdir = (\<lambda>p. p \<in> set [''/repo/data/q1'', ''/repo/data/q2'', ''/repo/data/q3'',
                                 ''/repo/data/q4'', ''/repo/data/q5'']),
       listdir = example_listdir,
       isfile = (\<lambda>p. p \<in> set example_images),
       read_b64 = (\<lambda>p. if p \<in> set example_images then File_base64 ''AAAA'' else File_not_found),
       json_loads = example_loads,
       chat_create = example_reply,
       load_json_file = (\<lambda>p. if p = ''/repo/data.json'' then Loaded example_dataset
                               else if p = ''/repo/quoted.json'' then Loaded quoted_dataset
                               else Load_not_found),
       write_json = (\<lambda>p. None) \<rparr>"

definition example_args :: args where
  "example_args =
     \<lparr> questions_file = ''/repo/data.json'',
       answers_dir = ''/repo/data'',
       output_file = ''evaluation.json'' \<rparr>"

section \<open>The response parser\<close>

text \<open>
  The span of the specification, in its words: the first \<open>{\<close> of \<open>s\<close> is at index \<open>i\<close>, the
  last \<open>}\<close> at index \<open>j\<close>, and \<open>j\<close> is strictly after \<open>i\<close>.
\<close>

definition brace_span_at :: "string \<Rightarrow> nat \<Rightarrow> nat \<Rightarrow> bool" where
  "brace_span_at s i j \<longleftrightarrow>
     i < length s \<and> s ! i = CHR ''{'' \<and> CHR ''{'' \<notin> set (take i s) \<and>
     j < length s \<and> s ! j = CHR ''}'' \<and> CHR ''}'' \<notin> set (drop (Suc j) s) \<and>
     i < j"

section \<open>Properties of the response parser\<close>

lemma find_from_absent: "c \<notin> set s \<Longrightarrow> find_from c s n = - 1"
  by (induction s arbitrary: n) auto

lemma rfind_from_absent: "c \<notin> set s \<Longrightarrow> rfind_from c s n = - 1"
  by (induction s arbitrary: n) auto

lemma find_from_first:
  "k < length s \<Longrightarrow> s ! k = c \<Longrightarrow> c \<notin> set (take k s) \<Longrightarrow> find_from c s n = n + int k"
proof (induction s arbitrary: k n)
  case Nil
  then show ?case by simp
next
  case (Cons x xs)
  show ?case
  proof (cases k)
    case 0
    with Cons.prems show ?thesis by simp
  next
    case (Suc k')
    with Cons.prems have "x \<noteq> c" "k' < length xs" "xs ! k' = c" "c \<notin> set (take k' xs)"
      by auto
    with Cons.IH [of k' "n + 1"] Suc show ?thesis by simp
  qed
qed

lemma rfind_from_last:
  "0 \<le> n \<Longrightarrow> k < length s \<Longrightarrow> s ! k = c \<Longrightarrow> c \<notin> set (drop (Suc k) s)
   \<Longrightarrow> rfind_from c s n = n + int k"
proof (induction s arbitrary: k n)
  case Nil
  then show ?case by simp
next
  case (Cons x xs)
  show ?case
  proof (cases k)
    case 0
    with Cons.prems have "c \<notin> set xs" "x = c" by auto
    then show ?thesis using 0 Cons.prems(1) by (simp add: rfind_from_absent)
  next
    case (Suc k')
    with Cons.prems have "k' < length xs" "xs ! k' = c" "c \<notin> set (drop (Suc k') xs)"
      by auto
    with Cons.IH [of "n + 1" k'] Cons.prems(1) have "rfind_from c xs (n + 1) = n + 1 + int k'"
      by simp
    with Suc Cons.prems(1) show ?thesis by (simp add: Let_def)
  qed
qed

lemma first_exists:
  "c \<in> set s \<Longrightarrow> \<exists>k. k < length s \<and> s ! k = c \<and> c \<notin> set (take k s)"
proof (induction s)
  case Nil
  then show ?case by simp
next
  case (Cons x xs)
  show ?case
  proof (cases "x = c")
    case True
    then have "0 < length (x # xs) \<and> (x # xs) ! 0 = c \<and> c \<notin> set (take 0 (x # xs))" by simp
    then show ?thesis by blast
  next
    case False
    with Cons obtain k where "k < length xs" "xs ! k = c" "c \<notin> set (take k xs)" by auto
    with False have "Suc k < length (x # xs) \<and> (x # xs) ! Suc k = c \<and> c \<notin> set (take (Suc k) (x # xs))"
      by simp
    then show ?thesis by blast
  qed
qed

lemma last_exists:
  "c \<in> set s \<Longrightarrow> \<exists>k. k < length s \<and> s ! k = c \<and> c \<notin> set (drop (Suc k) s)"
proof (induction s)
  case Nil
  then show ?case by simp
next
  case (Cons x xs)
  show ?case
  proof (cases "c \<in> set xs")
    case True
    with Cons obtain k where "k < length xs" "xs ! k = c" "c \<notin> set (drop (Suc k) xs)" by auto
    then have "Suc k < length (x # xs) \<and> (x # xs) ! Suc k = c \<and> c \<notin> set (drop (Suc (Suc k)) (x # xs))"
      by simp
    then show ?thesis by blast
  next
    case False
    with Cons.prems have "x = c" by simp
    with False have "0 < length (x # xs) \<and> (x # xs) ! 0 = c \<and> c \<notin> set (drop (Suc 0) (x # xs))" by simp
    then show ?thesis by blast
  qed
qed

lemma py_slice_span:
  "i < j \<Longrightarrow> j < length s \<Longrightarrow> py_slice s (int i) (int j + 1) = take (Suc j - i) (drop i s)"
proof -
  assume a: "i < j" "j < length s"
  have "nat (int j + 1) = Suc j" by simp
  with a show ?thesis
    by (simp add: py_slice_def slice_index_def Let_def min_def del: of_nat_Suc)
qed

lemma parse_at_span:
  assumes "brace_span_at s i j"
  shows "parse_gpt_response w s =
           (case json_loads w (take (Suc j - i) (drop i s)) of
              Parsed v \<Rightarrow> (v, [])
            | Decode_error e \<Rightarrow> (JNull, [Print (Json_decode_error s e)])
            | Other_error e \<Rightarrow> (JNull, [Print (Parse_unexpected e)]))"
proof -
  from assms have f: "str_find s CHR ''{'' = int i"
    unfolding brace_span_at_def str_find_def using find_from_first [of i s "CHR ''{''" 0] by simp
  from assms have r: "str_rfind s CHR ''}'' = int j"
    unfolding brace_span_at_def str_rfind_def using rfind_from_last [of 0 j s "CHR ''}''"] by simp
  from assms have "i < j" "j < length s" by (simp_all add: brace_span_at_def)
  then show ?thesis
    by (simp add: parse_gpt_response_def f r py_slice_span Let_def)
qed

lemma parse_else_branch:
  "\<not> (str_find s CHR ''{'' \<noteq> - 1 \<and> str_rfind s CHR ''}'' + 1 > str_find s CHR ''{'')
   \<Longrightarrow> parse_gpt_response w s = (JNull, [Print (No_valid_json s)])"
  unfolding parse_gpt_response_def Let_def by auto

lemma brace_in_set:
  "str_find s c \<noteq> - 1 \<Longrightarrow> c \<in> set s"
  unfolding str_find_def using find_from_absent [of c s 0] by blast

lemma str_find_first:
  "i < length s \<Longrightarrow> s ! i = c \<Longrightarrow> c \<notin> set (take i s) \<Longrightarrow> str_find s c = int i"
  unfolding str_find_def using find_from_first [of i s c 0] by simp

lemma str_rfind_last:
  "j < length s \<Longrightarrow> s ! j = c \<Longrightarrow> c \<notin> set (drop (Suc j) s) \<Longrightarrow> str_rfind s c = int j"
  unfolding str_rfind_def using rfind_from_last [of 0 j s c] by simp

lemma str_rfind_absent: "c \<notin> set s \<Longrightarrow> str_rfind s c = - 1"
  by (simp add: str_rfind_def rfind_from_absent)

lemma parse_no_span:
  assumes "\<And>i j. \<not> brace_span_at s i j"
  shows "parse_gpt_response w s = (JNull, [Print (No_valid_json s)])"
proof (rule parse_else_branch, rule notI, elim conjE)
  assume st: "str_find s CHR ''{'' \<noteq> - 1"
    and gt: "str_find s CHR ''{'' < str_rfind s CHR ''}'' + 1"
  from st have o: "CHR ''{'' \<in> set s"
    by (rule brace_in_set)
  from first_exists [OF o]
  obtain i where i: "i < length s" "s ! i = CHR ''{''" "CHR ''{'' \<notin> set (take i s)"
    by (elim exE conjE)
  from i have f: "str_find s CHR ''{'' = int i"
    by (rule str_find_first)
  have c: "CHR ''}'' \<in> set s"
  proof (rule ccontr)
    assume "CHR ''}'' \<notin> set s"
    then have "str_rfind s CHR ''}'' = - 1"
      by (rule str_rfind_absent)
    with gt f show False by simp
  qed
  from last_exists [OF c]
  obtain j where j: "j < length s" "s ! j = CHR ''}''" "CHR ''}'' \<notin> set (drop (Suc j) s)"
    by (elim exE conjE)
  from j have r: "str_rfind s CHR ''}'' = int j"
    by (rule str_rfind_last)
  from gt f r have "i \<le> j" by simp
  moreover have "i \<noteq> j"
  proof
    assume "i = j"
    with i(2) j(2) have "CHR ''{'' = CHR ''}''" by simp
    then show False by simp
  qed
  ultimately have "i < j" by simp
  with i j have "brace_span_at s i j" unfolding brace_span_at_def by simp
  with assms show False by simp
qed

lemma parse_reversed:
  assumes "CHR ''{'' \<notin> set a \<union> set b \<union> set c" "CHR ''}'' \<notin> set a \<union> set b \<union> set c"
  shows "parse_gpt_response w (a @ ''}'' @ b @ ''{'' @ c)
         = (JNull, [Print (No_valid_json (a @ ''}'' @ b @ ''{'' @ c))])"
proof (rule parse_else_branch)
  let ?s = "a @ ''}'' @ b @ ''{'' @ c"
  have s: "?s = (a @ ''}'' @ b) @ CHR ''{'' # c" by simp
  have "str_find ?s CHR ''{'' = int (length (a @ ''}'' @ b))"
    unfolding s using assms by (intro str_find_first) (simp_all add: nth_append)
  moreover have "str_rfind ?s CHR ''}'' = int (length a)"
    using assms by (intro str_rfind_last) (simp_all add: nth_append)
  ultimately show "\<not> (str_find ?s CHR ''{'' \<noteq> - 1
                     \<and> str_rfind ?s CHR ''}'' + 1 > str_find ?s CHR ''{'')"
    by simp
qed

lemma nested_span: \<open>brace_span_at ''{"a": {"b":1}}'' 0 13\<close>
  by (simp add: brace_span_at_def)

text \<open>
  Claim C2. The contract of the response parser. When the first \<open>{\<close> is at \<open>i\<close> and the
  last \<open>}\<close> at \<open>j\<close>, strictly after \<open>i\<close>, the text from \<open>i\<close> to \<open>j\<close> inclusive goes to the
  JSON decoder: if it decodes, the decoded value is returned and nothing is printed;
  if it does not, the result is null and one diagnostic line is printed. When there is
  no such pair of indices the result is null, with the diagnostic that no valid JSON was
  found. In particular the empty string fails; a string whose only \<open>}\<close> comes before its
  only \<open>{\<close> fails; and for the nested text \<open>{"a": {"b":1}}\<close> the whole text is what is
  decoded and returned (first brace to last brace, not balanced matching).
\<close>

theorem parse_gpt_response_contract:
  \<open>(brace_span_at s i j \<longrightarrow>
      (\<forall>v. json_loads w (take (Suc j - i) (drop i s)) = Parsed v
           \<longrightarrow> parse_gpt_response w s = (v, []))
      \<and> ((\<forall>v. json_loads w (take (Suc j - i) (drop i s)) \<noteq> Parsed v)
           \<longrightarrow> fst (parse_gpt_response w s) = JNull
               \<and> (\<exists>l. snd (parse_gpt_response w s) = [Print l])))
   \<and> ((\<forall>i j. \<not> brace_span_at s i j)
        \<longrightarrow> parse_gpt_response w s = (JNull, [Print (No_valid_json s)]))
   \<and> parse_gpt_response w [] = (JNull, [Print (No_valid_json [])])
   \<and> (CHR ''{'' \<notin> set a \<union> set b \<union> set c \<and> CHR ''}'' \<notin> set a \<union> set b \<union> set c
        \<longrightarrow> parse_gpt_response w (a @ ''}'' @ b @ ''{'' @ c)
            = (JNull, [Print (No_valid_json (a @ ''}'' @ b @ ''{'' @ c))]))
   \<and> (\<forall>v. json_loads w ''{"a": {"b":1}}'' = Parsed v
        \<longrightarrow> parse_gpt_response w ''{"a": {"b":1}}'' = (v, []))\<close>
proof (intro conjI impI allI)
  fix v
  assume "brace_span_at s i j" "json_loads w (take (Suc j - i) (drop i s)) = Parsed v"
  then show "parse_gpt_response w s = (v, [])"
    by (simp add: parse_at_span)
next
  assume sp: "brace_span_at s i j"
    and "\<forall>v. json_loads w (take (Suc j - i) (drop i s)) \<noteq> Parsed v"
  then show "fst (parse_gpt_response w s) = JNull"
    by (cases "json_loads w (take (Suc j - i) (drop i s))") (simp_all add: parse_at_span)
next
  assume sp: "brace_span_at s i j"
    and "\<forall>v. json_loads w (take (Suc j - i) (drop i s)) \<noteq> Parsed v"
  then show "\<exists>l. snd (parse_gpt_response w s) = [Print l]"
    by (cases "json_loads w (take (Suc j - i) (drop i s))") (simp_all add: parse_at_span)
next
  assume "\<forall>i j. \<not> brace_span_at s i j"
  then show "parse_gpt_response w s = (JNull, [Print (No_valid_json s)])"
    by (simp add: parse_no_span)
next
  show "parse_gpt_response w [] = (JNull, [Print (No_valid_json [])])"
    by (simp add: parse_gpt_response_def str_find_def str_rfind_def)
next
  assume h: "CHR ''{'' \<notin> set a \<union> set b \<union> set c \<and> CHR ''}'' \<notin> set a \<union> set b \<union> set c"
  show "parse_gpt_response w (a @ ''}'' @ b @ ''{'' @ c)
             = (JNull, [Print (No_valid_json (a @ ''}'' @ b @ ''{'' @ c))])"
    by (rule parse_reversed [OF conjunct1 [OF h] conjunct2 [OF h]])
next
  fix v
  assume \<open>json_loads w ''{"a": {"b":1}}'' = Parsed v\<close>
  then show \<open>parse_gpt_response w ''{"a": {"b":1}}'' = (v, [])\<close>
    using parse_at_span [OF nested_span, of w] by simp
qed

text \<open>
  The contract at concrete replies: a nested object inside a sentence, the nested object
  alone, a span that does not decode, and reversed braces.
\<close>

theorem parse_gpt_response_contract_witness:
  \<open>brace_span_at ''Scores: {"a": {"b":1}} thanks'' 8 21
   \<and> json_loads example_world ''{"a": {"b":1}}''
       = Parsed (JObject [(''a'', JObject [(''b'', JInt 1)])])
   \<and> parse_gpt_response example_world ''Scores: {"a": {"b":1}} thanks''
       = (JObject [(''a'', JObject [(''b'', JInt 1)])], [])
   \<and> parse_gpt_response example_world ''{"a": {"b":1}}''
       = (JObject [(''a'', JObject [(''b'', JInt 1)])], [])
   \<and> brace_span_at ''{"1":}'' 0 5
   \<and> (\<forall>v. json_loads example_world ''{"1":}'' \<noteq> Parsed v)
   \<and> fst (parse_gpt_response example_world ''{"1":}'') = JNull
   \<and> (\<forall>i j. \<not> brace_span_at [] i j)
   \<and> parse_gpt_response example_world ''x}y{z'' = (JNull, [Print (No_valid_json ''x}y{z'')])\<close>
proof -
  let ?v = \<open>JObject [(''a'', JObject [(''b'', JInt (1::int))])] :: unit json\<close>
  have sp1: \<open>brace_span_at ''Scores: {"a": {"b":1}} thanks'' 8 21\<close>
    by (simp add: brace_span_at_def)
  have sub1: \<open>take (Suc 21 - 8) (drop 8 ''Scores: {"a": {"b":1}} thanks'') = ''{"a": {"b":1}}''\<close>
    by simp
  have l1: \<open>json_loads example_world ''{"a": {"b":1}}'' = Parsed ?v\<close>
    by (simp add: example_world_def example_loads_def)
  have sp2: \<open>brace_span_at ''{"1":}'' 0 5\<close>
    by (simp add: brace_span_at_def)
  have sub2: \<open>take (Suc 5 - 0) (drop 0 ''{"1":}'') = ''{"1":}''\<close>
    by simp
  have l2: \<open>\<forall>v. json_loads example_world ''{"1":}'' \<noteq> Parsed v\<close>
    by (simp add: example_world_def example_loads_def)
  have sp3: \<open>\<forall>i j. \<not> brace_span_at [] i j\<close>
    by (simp add: brace_span_at_def)
  have r1: \<open>parse_gpt_response example_world ''Scores: {"a": {"b":1}} thanks'' = (?v, [])\<close>
    and r1': \<open>parse_gpt_response example_world ''{"a": {"b":1}}'' = (?v, [])\<close>
    using parse_gpt_response_contract
            [of \<open>''Scores: {"a": {"b":1}} thanks''\<close> 8 21 example_world \<open>''x''\<close> \<open>''y''\<close> \<open>''z''\<close>]
          sp1 l1 unfolding sub1 by simp_all
  have r2: \<open>fst (parse_gpt_response example_world ''{"1":}'') = JNull\<close>
    using parse_gpt_response_contract [of \<open>''{"1":}''\<close> 0 5 example_world \<open>''x''\<close> \<open>''y''\<close> \<open>''z''\<close>]
          sp2 l2 unfolding sub2 by simp
  have r3: \<open>parse_gpt_response example_world ''x}y{z'' = (JNull, [Print (No_valid_json ''x}y{z'')])\<close>
    using parse_gpt_response_contract [of \<open>[]\<close> 0 0 example_world \<open>''x''\<close> \<open>''y''\<close> \<open>''z''\<close>]
    by simp
  from sp1 l1 r1 r1' sp2 l2 r2 sp3 r3 show ?thesis by (intro conjI)
qed

section \<open>Properties of the evaluation functions\<close>

lemma requests_append: "requests (xs @ ys) = requests xs @ requests ys"
  by (induction xs rule: requests.induct) simp_all

lemma written_append: "written (xs @ ys) = written xs @ written ys"
  by (induction xs rule: written.induct) simp_all

lemma encode_cases:
  "encode_image_to_data_url w p = (u, evs) \<Longrightarrow>
     (u = None \<and> (\<exists>l. evs = [Print l])) \<or> (\<exists>s. u = Some s \<and> s \<noteq> [] \<and> evs = [])"
  by (auto simp: encode_image_to_data_url_def Let_def split: file_read.splits)

lemma encode_requests: "requests (snd (encode_image_to_data_url w p)) = []"
  by (simp add: encode_image_to_data_url_def Let_def split: file_read.splits)

lemma encode_truthy:
  "str_truthy (fst (encode_image_to_data_url w p)) \<longleftrightarrow> fst (encode_image_to_data_url w p) \<noteq> None"
  by (simp add: encode_image_to_data_url_def Let_def str_truthy_def split: file_read.splits)

lemma encode_answers_requests: "requests (snd (encode_answers w ps)) = []"
proof (induction ps)
  case Nil
  show ?case by simp
next
  case (Cons p ps)
  obtain u evs where e: "encode_image_to_data_url w p = (u, evs)" by (cases "encode_image_to_data_url w p")
  obtain r evs' where r: "encode_answers w ps = (r, evs')" by (cases "encode_answers w ps")
  from e have "requests evs = []" using encode_requests [of w p] by simp
  moreover from r Cons have "requests evs' = []" by simp
  ultimately show ?case
    by (simp add: e r requests_append split: sum.splits)
qed

lemma encode_answers_fail:
  "\<exists>p \<in> set ps. fst (encode_image_to_data_url w p) = None
   \<Longrightarrow> \<exists>bad. fst (encode_answers w ps) = Inl bad \<and> bad \<in> set ps
            \<and> fst (encode_image_to_data_url w bad) = None"
proof (induction ps)
  case Nil
  then show ?case by simp
next
  case (Cons p ps)
  obtain u evs where e: "encode_image_to_data_url w p = (u, evs)" by (cases "encode_image_to_data_url w p")
  obtain r evs' where r: "encode_answers w ps = (r, evs')" by (cases "encode_answers w ps")
  have t: "str_truthy u \<longleftrightarrow> u \<noteq> None" using encode_truthy [of w p] e by simp
  show ?case
  proof (cases "u = None")
    case True
    with e t show ?thesis by simp
  next
    case False
    with Cons.prems e have "\<exists>p \<in> set ps. fst (encode_image_to_data_url w p) = None" by auto
    from Cons.IH [OF this] r obtain bad where
      "r = Inl bad" "bad \<in> set ps" "fst (encode_image_to_data_url w bad) = None" by auto
    with False e r t show ?thesis by simp
  qed
qed

lemma encode_answers_ok:
  "\<forall>p \<in> set ps. fst (encode_image_to_data_url w p) \<noteq> None
   \<Longrightarrow> \<exists>parts. fst (encode_answers w ps) = Inr parts \<and> length parts = length ps"
proof (induction ps)
  case Nil
  then show ?case by simp
next
  case (Cons p ps)
  obtain u evs where e: "encode_image_to_data_url w p = (u, evs)" by (cases "encode_image_to_data_url w p")
  obtain r evs' where r: "encode_answers w ps = (r, evs')" by (cases "encode_answers w ps")
  have t: "str_truthy u \<longleftrightarrow> u \<noteq> None" using encode_truthy [of w p] e by simp
  from Cons.prems e have u: "u \<noteq> None" by auto
  from Cons obtain parts where "r = Inr parts" "length parts = length ps" using r by auto
  with u e r t show ?case by simp
qed

text \<open>The shared try block: what it returns.\<close>

lemma request_scores_result:
  "fst (request_scores w parts) =
     (case chat_create w parts of
        Api_content c \<Rightarrow>
          (fst (parse_gpt_response w (strip c)),
           if truthy w (fst (parse_gpt_response w (strip c))) then None
           else Some ''Failed to parse scores from GPT response.'')
      | Api_openai_error e \<Rightarrow> (JNull, Some (''OpenAI API error: '' @ e))
      | Api_other_error e \<Rightarrow> (JNull, Some (''Unexpected error during API call: '' @ e)))"
  by (simp add: request_scores_def Let_def split: api_result.splits prod.splits)

lemma request_scores_shape:
  assumes "fst (request_scores w parts) = (scores, err)"
  shows "(truthy w scores \<and> err = None) \<or> (\<not> truthy w scores \<and> err \<noteq> None \<and> str_truthy err)"
  using assms
  by (auto simp: request_scores_result str_truthy_def split: api_result.splits if_splits)

lemma parse_requests: "requests (snd (parse_gpt_response w s)) = []"
  by (simp add: parse_gpt_response_def Let_def split: loads_result.splits)

lemma request_scores_requests: "requests (snd (request_scores w parts)) = [parts]"
proof (cases "chat_create w parts")
  case (Api_content c)
  obtain v evs where p: "parse_gpt_response w (strip c) = (v, evs)"
    by (cases "parse_gpt_response w (strip c)")
  with parse_requests [of w "strip c"] have "requests evs = []" by simp
  with Api_content p show ?thesis by (simp add: request_scores_def Let_def)
next
  case (Api_openai_error e)
  then show ?thesis by (simp add: request_scores_def)
next
  case (Api_other_error e)
  then show ?thesis by (simp add: request_scores_def)
qed

lemma image_single_fail:
  assumes "fst (encode_image_to_data_url w q) = None \<or> fst (encode_image_to_data_url w a) = None"
  shows "fst (evaluate_image_q_single_a w q a) = (JNull, Some ''Failed to encode one or both images.'')"
    and "requests (snd (evaluate_image_q_single_a w q a)) = []"
proof -
  obtain qu qe where q: "encode_image_to_data_url w q = (qu, qe)" by (cases "encode_image_to_data_url w q")
  obtain au ae where a: "encode_image_to_data_url w a = (au, ae)" by (cases "encode_image_to_data_url w a")
  from assms q a have "\<not> str_truthy qu \<or> \<not> str_truthy au"
    by (auto simp: str_truthy_def)
  moreover have "requests qe = []" "requests ae = []"
    using encode_requests [of w q] encode_requests [of w a] q a by simp_all
  ultimately show "fst (evaluate_image_q_single_a w q a) = (JNull, Some ''Failed to encode one or both images.'')"
    and "requests (snd (evaluate_image_q_single_a w q a)) = []"
    by (auto simp: evaluate_image_q_single_a_def q a requests_append)
qed

lemma text_single_fail:
  assumes "fst (encode_image_to_data_url w a) = None"
  shows "fst (evaluate_text_q_single_a w t a) = (JNull, Some ''Failed to encode answer image.'')"
    and "requests (snd (evaluate_text_q_single_a w t a)) = []"
proof -
  obtain au ae where a: "encode_image_to_data_url w a = (au, ae)" by (cases "encode_image_to_data_url w a")
  from assms a have "\<not> str_truthy au" by (simp add: str_truthy_def)
  moreover have "requests ae = []" using encode_requests [of w a] a by simp
  ultimately show "fst (evaluate_text_q_single_a w t a) = (JNull, Some ''Failed to encode answer image.'')"
    and "requests (snd (evaluate_text_q_single_a w t a)) = []"
    by (auto simp: evaluate_text_q_single_a_def a)
qed

lemma text_multiple_fail:
  assumes "\<exists>p \<in> set ps. fst (encode_image_to_data_url w p) = None"
  shows "\<exists>bad \<in> set ps. fst (evaluate_text_q_multiple_a w t ps)
            = (JNull, Some (''Failed to encode an answer image: '' @ bad))"
    and "requests (snd (evaluate_text_q_multiple_a w t ps)) = []"
proof -
  obtain r evs where r: "encode_answers w ps = (r, evs)" by (cases "encode_answers w ps")
  from encode_answers_fail [OF assms] r obtain bad where b: "r = Inl bad" "bad \<in> set ps" by auto
  have "requests evs = []" using encode_answers_requests [of w ps] r by simp
  with b r show "\<exists>bad \<in> set ps. fst (evaluate_text_q_multiple_a w t ps)
            = (JNull, Some (''Failed to encode an answer image: '' @ bad))"
    and "requests (snd (evaluate_text_q_multiple_a w t ps)) = []"
    by (auto simp: evaluate_text_q_multiple_a_def)
qed

lemma image_multiple_fail:
  assumes "fst (encode_image_to_data_url w q) = None
           \<or> (\<exists>p \<in> set ps. fst (encode_image_to_data_url w p) = None)"
  shows "fst (evaluate_image_q_multiple_a w q ps) = (JNull, Some ''Failed to encode question image.'')
         \<or> (\<exists>bad \<in> set ps. fst (evaluate_image_q_multiple_a w q ps)
               = (JNull, Some (''Failed to encode an answer image: '' @ bad)))"
    and "requests (snd (evaluate_image_q_multiple_a w q ps)) = []"
proof -
  obtain qu qe where q: "encode_image_to_data_url w q = (qu, qe)" by (cases "encode_image_to_data_url w q")
  obtain r evs where r: "encode_answers w ps = (r, evs)" by (cases "encode_answers w ps")
  have t: "str_truthy qu \<longleftrightarrow> qu \<noteq> None" using encode_truthy [of w q] q by simp
  have rq: "requests qe = []" using encode_requests [of w q] q by simp
  have re: "requests evs = []" using encode_answers_requests [of w ps] r by simp
  have "(fst (evaluate_image_q_multiple_a w q ps) = (JNull, Some ''Failed to encode question image.'')
         \<or> (\<exists>bad \<in> set ps. fst (evaluate_image_q_multiple_a w q ps)
               = (JNull, Some (''Failed to encode an answer image: '' @ bad))))
        \<and> requests (snd (evaluate_image_q_multiple_a w q ps)) = []"
  proof (cases "qu = None")
    case True
    with q t rq show ?thesis by (simp add: evaluate_image_q_multiple_a_def)
  next
    case False
    with assms q have "\<exists>p \<in> set ps. fst (encode_image_to_data_url w p) = None" by simp
    from encode_answers_fail [OF this] r obtain bad where b: "r = Inl bad" "bad \<in> set ps" by auto
    with False q t r rq re show ?thesis
      by (auto simp: evaluate_image_q_multiple_a_def requests_append)
  qed
  then show "fst (evaluate_image_q_multiple_a w q ps) = (JNull, Some ''Failed to encode question image.'')
         \<or> (\<exists>bad \<in> set ps. fst (evaluate_image_q_multiple_a w q ps)
               = (JNull, Some (''Failed to encode an answer image: '' @ bad)))"
    and "requests (snd (evaluate_image_q_multiple_a w q ps)) = []"
    by simp_all
qed

text \<open>
  What every evaluation function returns: truthy scores and no error, or falsy scores
  and a non-empty error message. (Falsy scores need not be null.)
\<close>

lemma request_scores_shape_pair:
  "request_scores w parts = ((scores, err), evs)
   \<Longrightarrow> (truthy w scores \<and> err = None) \<or> (\<not> truthy w scores \<and> str_truthy err)"
  using request_scores_shape [of w parts scores err] by auto

lemma evaluate_image_q_single_a_shape:
  "evaluate_image_q_single_a w q a = ((scores, err), evs)
   \<Longrightarrow> (truthy w scores \<and> err = None) \<or> (\<not> truthy w scores \<and> str_truthy err)"
  by (auto simp: evaluate_image_q_single_a_def str_truthy_def
           split: prod.splits if_splits option.splits
           dest: request_scores_shape_pair)

lemma evaluate_text_q_single_a_shape:
  "evaluate_text_q_single_a w t a = ((scores, err), evs)
   \<Longrightarrow> (truthy w scores \<and> err = None) \<or> (\<not> truthy w scores \<and> str_truthy err)"
  by (auto simp: evaluate_text_q_single_a_def str_truthy_def
           split: prod.splits if_splits option.splits
           dest: request_scores_shape_pair)

lemma evaluate_text_q_multiple_a_shape:
  "evaluate_text_q_multiple_a w t ps = ((scores, err), evs)
   \<Longrightarrow> (truthy w scores \<and> err = None) \<or> (\<not> truthy w scores \<and> str_truthy err)"
  by (auto simp: evaluate_text_q_multiple_a_def str_truthy_def
           split: prod.splits sum.splits option.splits
           dest: request_scores_shape_pair)

lemma evaluate_image_q_multiple_a_shape:
  "evaluate_image_q_multiple_a w q ps = ((scores, err), evs)
   \<Longrightarrow> (truthy w scores \<and> err = None) \<or> (\<not> truthy w scores \<and> str_truthy err)"
  by (auto simp: evaluate_image_q_multiple_a_def str_truthy_def
           split: prod.splits sum.splits if_splits option.splits
           dest: request_scores_shape_pair)

text \<open>
  Claim C8. In each of the four evaluation functions, when encoding a required image
  fails (\<open>encode_image_to_data_url\<close> returns \<open>None\<close> for the question image or for one of
  the answer images), the function returns null scores with an error message and no
  request has been sent.
\<close>

theorem encoding_failure_sends_no_request:
  "(fst (encode_image_to_data_url w q) = None \<or> fst (encode_image_to_data_url w a) = None
      \<longrightarrow> fst (evaluate_image_q_single_a w q a)
            = (JNull, Some ''Failed to encode one or both images.'')
          \<and> requests (snd (evaluate_image_q_single_a w q a)) = [])
   \<and> (fst (encode_image_to_data_url w q) = None
       \<or> (\<exists>p \<in> set ps. fst (encode_image_to_data_url w p) = None)
      \<longrightarrow> (fst (evaluate_image_q_multiple_a w q ps)
             = (JNull, Some ''Failed to encode question image.'')
           \<or> (\<exists>bad \<in> set ps. fst (evaluate_image_q_multiple_a w q ps)
                 = (JNull, Some (''Failed to encode an answer image: '' @ bad))))
          \<and> requests (snd (evaluate_image_q_multiple_a w q ps)) = [])
   \<and> (fst (encode_image_to_data_url w a) = None
      \<longrightarrow> fst (evaluate_text_q_single_a w t a) = (JNull, Some ''Failed to encode answer image.'')
          \<and> requests (snd (evaluate_text_q_single_a w t a)) = [])
   \<and> ((\<exists>p \<in> set ps. fst (encode_image_to_data_url w p) = None)
      \<longrightarrow> (\<exists>bad \<in> set ps. fst (evaluate_text_q_multiple_a w t ps)
                 = (JNull, Some (''Failed to encode an answer image: '' @ bad)))
          \<and> requests (snd (evaluate_text_q_multiple_a w t ps)) = [])"
proof (intro conjI impI)
  assume h: "fst (encode_image_to_data_url w q) = None \<or> fst (encode_image_to_data_url w a) = None"
  show "fst (evaluate_image_q_single_a w q a) = (JNull, Some ''Failed to encode one or both images.'')"
    by (rule image_single_fail(1) [OF h])
  show "requests (snd (evaluate_image_q_single_a w q a)) = []"
    by (rule image_single_fail(2) [OF h])
next
  assume h: "fst (encode_image_to_data_url w q) = None
             \<or> (\<exists>p \<in> set ps. fst (encode_image_to_data_url w p) = None)"
  show "fst (evaluate_image_q_multiple_a w q ps) = (JNull, Some ''Failed to encode question image.'')
        \<or> (\<exists>bad \<in> set ps. fst (evaluate_image_q_multiple_a w q ps)
              = (JNull, Some (''Failed to encode an answer image: '' @ bad)))"
    by (rule image_multiple_fail(1) [OF h])
  show "requests (snd (evaluate_image_q_multiple_a w q ps)) = []"
    by (rule image_multiple_fail(2) [OF h])
next
  assume h: "fst (encode_image_to_data_url w a) = None"
  show "fst (evaluate_text_q_single_a w t a) = (JNull, Some ''Failed to encode answer image.'')"
    by (rule text_single_fail(1) [OF h])
  show "requests (snd (evaluate_text_q_single_a w t a)) = []"
    by (rule text_single_fail(2) [OF h])
next
  assume h: "\<exists>p \<in> set ps. fst (encode_image_to_data_url w p) = None"
  show "\<exists>bad \<in> set ps. fst (evaluate_text_q_multiple_a w t ps)
          = (JNull, Some (''Failed to encode an answer image: '' @ bad))"
    by (rule text_multiple_fail(1) [OF h])
  show "requests (snd (evaluate_text_q_multiple_a w t ps)) = []"
    by (rule text_multiple_fail(2) [OF h])
qed

text \<open>
  An answer image that cannot be read, in the example environment: none of the four
  functions sends a request.
\<close>

theorem encoding_failure_sends_no_request_witness:
  "fst (encode_image_to_data_url example_world ''/repo/data/q2/lost.png'') = None
   \<and> fst (encode_image_to_data_url example_world ''/repo/fig_ok.png'') \<noteq> None
   \<and> fst (evaluate_image_q_single_a example_world ''/repo/fig_ok.png'' ''/repo/data/q2/lost.png'')
       = (JNull, Some ''Failed to encode one or both images.'')
   \<and> requests (snd (evaluate_image_q_single_a example_world ''/repo/fig_ok.png''
                      ''/repo/data/q2/lost.png'')) = []
   \<and> requests (snd (evaluate_image_q_multiple_a example_world ''/repo/fig_ok.png''
                      [''/repo/data/q2/a.gif'', ''/repo/data/q2/lost.png''])) = []
   \<and> fst (evaluate_text_q_single_a example_world (JString ''What is 2+3?'') ''/repo/data/q2/lost.png'')
       = (JNull, Some ''Failed to encode answer image.'')
   \<and> requests (snd (evaluate_text_q_single_a example_world (JString ''What is 2+3?'')
                      ''/repo/data/q2/lost.png'')) = []
   \<and> requests (snd (evaluate_text_q_multiple_a example_world (JString ''What is 2+3?'')
                      [''/repo/data/q2/a.gif'', ''/repo/data/q2/lost.png''])) = []"
proof -
  have lost: "fst (encode_image_to_data_url example_world ''/repo/data/q2/lost.png'') = None"
    by (simp add: encode_image_to_data_url_def example_world_def example_images_def)
  have ok: "fst (encode_image_to_data_url example_world ''/repo/fig_ok.png'') \<noteq> None"
    by (simp add: encode_image_to_data_url_def example_world_def example_images_def Let_def)
  have ex: "\<exists>p \<in> set [''/repo/data/q2/a.gif'', ''/repo/data/q2/lost.png''].
              fst (encode_image_to_data_url example_world p) = None"
    using lost by simp
  note t = encoding_failure_sends_no_request
             [of example_world "''/repo/fig_ok.png''" "''/repo/data/q2/lost.png''"
                 "[''/repo/data/q2/a.gif'', ''/repo/data/q2/lost.png'']" "JString ''What is 2+3?''"]
  from t lost ok ex show ?thesis by simp
qed

text \<open>
  Claim C3. An evaluation function returns the pair \<open>scores, err\<close>. When the model
  replies \<open>{}\<close>, the parsed object is empty, hence falsy but not null: the function
  returns it together with the error message, so both components are non-null. Here
  the text question \<open>empty\<close> with one answer image, in the example environment.
\<close>

theorem evaluator_returns_scores_with_error:
  "fst (evaluate_text_q_single_a example_world (JString ''empty'') ''/repo/data/q1/a.png'')
   = (JObject [], Some ''Failed to parse scores from GPT response.'')"
proof -
  have e: "encode_image_to_data_url example_world ''/repo/data/q1/a.png''
           = (Some ''data:image/png;base64,AAAA'', [])"
    by (simp add: encode_image_to_data_url_def example_world_def example_images_def Let_def
          splitext_ext_def str_rfind_def py_slice_def slice_index_def lower_def lower_char_def)
  have c: "chat_create example_world
             [Text_guidelines, Text_question (JString ''empty''), Text_part ''Answer screenshot:'',
              Image_url ''data:image/png;base64,AAAA'', Text_instruction Instr_text_single]
           = Api_content ''{}''"
    by (simp add: example_world_def example_reply_def)
  have s: "strip ''{}'' = ''{}''"
    by (simp add: strip_def is_space_def)
  have p: "parse_gpt_response example_world ''{}'' = (JObject [], [])"
    by (simp add: parse_gpt_response_def str_find_def str_rfind_def py_slice_def slice_index_def
          example_world_def example_loads_def Let_def)
  show ?thesis
    by (simp add: evaluate_text_q_single_a_def e str_truthy_def request_scores_def c s p)
qed

section \<open>Properties of the batch runner\<close>

lemma evaluate_question_entry:
  "fst (fst (evaluate_question w qc files e)) =
     (if is_image_question qc
      then (if \<not> isfile w (path_join (script_dir w) (str_value qc))
            then e\<lparr> question_type := Some ''Image'',
                   question_path_or_text := JString (path_join (script_dir w) (str_value qc)),
                   error_message := Some ''Question image file not found.'' \<rparr>
            else e\<lparr> question_type := Some ''Image'',
                   question_path_or_text := JString (path_join (script_dir w) (str_value qc)) \<rparr>)
      else e\<lparr> question_type := Some ''Text'', question_path_or_text := qc \<rparr>)"
  by (simp add: evaluate_question_def Let_def split: prod.splits)

lemma evaluate_question_continue:
  "snd (fst (evaluate_question w qc files e)) = None
   \<longleftrightarrow> is_image_question qc \<and> \<not> isfile w (path_join (script_dir w) (str_value qc))"
  by (simp add: evaluate_question_def Let_def split: prod.splits)

lemma record_outcome_entry:
  assumes "fst (record_outcome w e scores err) = Inr e'"
  shows "(str_truthy err \<and> e' = e\<lparr> error_message := err \<rparr>)
       \<or> (\<not> str_truthy err \<and> truthy w scores
           \<and> (\<exists>summed. e' = e\<lparr> category_scores := scores, total_score := summed \<rparr>
                \<and> (case scores of JObject kvs \<Rightarrow> py_sum w (map snd kvs) | _ \<Rightarrow> Inr (PInt 0))
                    = Inr summed))
       \<or> (\<not> str_truthy err \<and> \<not> truthy w scores
           \<and> e' = e\<lparr> error_message :=
                        Some ''Evaluation completed but no scores were returned.'' \<rparr>)"
  using assms
  by (auto simp: record_outcome_def split: if_splits sum.splits)

lemma record_outcome_raises:
  "fst (record_outcome w e scores err) = Inl x
   \<longleftrightarrow> \<not> str_truthy err \<and> truthy w scores
       \<and> (\<exists>kvs. scores = JObject kvs \<and> py_sum w (map snd kvs) = Inl x)"
  by (auto simp: record_outcome_def split: if_splits sum.splits json.splits)

lemma sum_from_raises:
  "sum_from w added rest = Inl x
   \<Longrightarrow> (x = TypeError \<and> \<not> list_all is_number rest) \<or> x = OverflowError"
  by (induction rest arbitrary: added) (auto split: if_splits option.splits)

lemma py_sum_raises:
  "py_sum w vs = Inl x \<Longrightarrow> (x = TypeError \<and> \<not> list_all is_number vs) \<or> x = OverflowError"
  unfolding py_sum_def by (rule sum_from_raises)

lemma sum_from_integers:
  "list_all is_integer added \<Longrightarrow> list_all is_integer rest
   \<Longrightarrow> sum_from w added rest = Inr (PInt (sum_list (map int_value (added @ rest))))"
proof (induction rest arbitrary: added)
  case Nil
  then show ?case by simp
next
  case (Cons v rest)
  then have v: "is_integer v" and r: "list_all is_integer rest" by simp_all
  from v have n: "is_number v" by (cases v) simp_all
  from Cons.prems(1) v have a: "list_all is_integer (added @ [v])" by simp
  from Cons.IH [OF a r] n a show ?case by simp
qed

lemma process_item_not_dict:
  "\<forall>d. item \<noteq> JObject d \<Longrightarrow> process_item w a item = (Inl AttributeError, [])"
  by (cases item) (simp_all add: process_item_def)

lemma process_item_skipped:
  "\<not> valid_item w d
   \<Longrightarrow> process_item w a (JObject d) = (Inr None, [Print (Skipping_item (JObject d))])"
  by (auto simp: process_item_def valid_item_def Let_def)

lemma process_item_no_folder:
  "valid_item w d \<Longrightarrow> \<not> isdir w (answer_folder w a d)
   \<Longrightarrow> process_item w a (JObject d) =
        (Inr (Some ((new_entry (dict_get d ''id'')
                       (dict_get_default d ''subject'' (JString ''N/A''))
                       (dict_get d ''question''))
                    \<lparr> error_message := Some ''Answer folder not found.'' \<rparr>)),
         [Print (Processing_question (dict_get d ''id'')),
          Print (Answer_folder_not_found (answer_folder w a d))])"
  by (simp add: process_item_def valid_item_def answer_folder_def Let_def)

lemma process_item_listdir_error:
  "valid_item w d \<Longrightarrow> isdir w (answer_folder w a d)
   \<Longrightarrow> listdir w (answer_folder w a d) = Inl x
   \<Longrightarrow> process_item w a (JObject d)
       = (Inl (OSError x), [Print (Processing_question (dict_get d ''id''))])"
  by (simp add: process_item_def valid_item_def answer_folder_def Let_def)

lemma process_item_no_images:
  "valid_item w d \<Longrightarrow> isdir w (answer_folder w a d)
   \<Longrightarrow> listdir w (answer_folder w a d) = Inr names
   \<Longrightarrow> answer_image_files_of (answer_folder w a d) names = []
   \<Longrightarrow> process_item w a (JObject d) =
        (Inr (Some ((new_entry (dict_get d ''id'')
                       (dict_get_default d ''subject'' (JString ''N/A''))
                       (dict_get d ''question''))
                    \<lparr> answer_image_paths := [], num_answer_images := 0,
                      error_message := Some ''No answer images found.'' \<rparr>)),
         [Print (Processing_question (dict_get d ''id'')),
          Print (No_answer_images (answer_folder w a d))])"
  by (simp add: process_item_def valid_item_def answer_folder_def Let_def)

text \<open>The item reaches the modality test: what the loop body then does.\<close>

lemma process_item_evaluated:
  assumes "valid_item w d" "isdir w (answer_folder w a d)"
    and "listdir w (answer_folder w a d) = Inr names"
    and "answer_image_files_of (answer_folder w a d) names \<noteq> []"
  shows "fst (process_item w a (JObject d)) =
     (let files = answer_image_files_of (answer_folder w a d) names;
          entry = (new_entry (dict_get d ''id'')
                     (dict_get_default d ''subject'' (JString ''N/A''))
                     (dict_get d ''question''))
                  \<lparr> answer_image_paths := files, num_answer_images := length files \<rparr>;
          ev = evaluate_question w (dict_get d ''question'') files entry
      in (case snd (fst ev) of
            None \<Rightarrow> Inr (Some (fst (fst ev)))
          | Some (scores, err) \<Rightarrow>
              (case fst (record_outcome w (fst (fst ev)) scores err) of
                 Inl x \<Rightarrow> Inl x
               | Inr e \<Rightarrow> Inr (Some e))))"
  using assms
  by (simp add: process_item_def valid_item_def answer_folder_def Let_def
           split: prod.splits option.splits sum.splits)

lemma run_items_recorded:
  assumes "fst (process_item w a item) = Inr (Some e)"
  shows "all_results (run_items w a (item # rest)) = e # all_results (run_items w a rest)"
    and "raised (run_items w a (item # rest)) = raised (run_items w a rest)"
    and "events (run_items w a (item # rest))
         = snd (process_item w a item) @ events (run_items w a rest)"
  using assms by (cases "process_item w a item"; simp add: Let_def)+

lemma run_items_skipped:
  assumes "fst (process_item w a item) = Inr None"
  shows "all_results (run_items w a (item # rest)) = all_results (run_items w a rest)"
    and "raised (run_items w a (item # rest)) = raised (run_items w a rest)"
    and "events (run_items w a (item # rest))
         = snd (process_item w a item) @ events (run_items w a rest)"
  using assms by (cases "process_item w a item"; simp add: Let_def)+

lemma run_items_raised:
  assumes "fst (process_item w a item) = Inl x"
  shows "all_results (run_items w a (item # rest)) = []"
    and "raised (run_items w a (item # rest)) = Some x"
    and "events (run_items w a (item # rest)) = snd (process_item w a item)"
  using assms by (cases "process_item w a item"; simp add: Let_def)+

lemma no_images_iff:
  "answer_image_files_of folder names = [] \<longleftrightarrow> filter is_answer_image names = []"
proof -
  have "length (answer_image_files_of folder names) = length (filter is_answer_image names)"
    by (simp add: answer_image_files_of_def)
  then show ?thesis by (metis length_0_conv)
qed

text \<open>
  The entry of an item that reaches the modality test: it is the entry after
  \<open>evaluate_question\<close>, with at most \<open>error_message\<close>, \<open>category_scores\<close> and \<open>total_score\<close>
  changed by \<open>record_outcome\<close>.
\<close>

lemma process_item_evaluated_entry:
  assumes v: "valid_item w d" "isdir w (answer_folder w a d)"
    "listdir w (answer_folder w a d) = Inr names"
    "answer_image_files_of (answer_folder w a d) names \<noteq> []"
    and p: "fst (process_item w a (JObject d)) = Inr eo"
  shows "\<exists>e m c t. eo = Some e
           \<and> e = (fst (fst (evaluate_question w (dict_get d ''question'')
                       (answer_image_files_of (answer_folder w a d) names)
                       ((new_entry (dict_get d ''id'')
                           (dict_get_default d ''subject'' (JString ''N/A''))
                           (dict_get d ''question''))
                        \<lparr> answer_image_paths := answer_image_files_of (answer_folder w a d) names,
                          num_answer_images :=
                            length (answer_image_files_of (answer_folder w a d) names) \<rparr>))))
                 \<lparr> error_message := m, category_scores := c, total_score := t \<rparr>"
proof -
  let ?files = "answer_image_files_of (answer_folder w a d) names"
  let ?entry = "(new_entry (dict_get d ''id'') (dict_get_default d ''subject'' (JString ''N/A''))
                   (dict_get d ''question''))
                \<lparr> answer_image_paths := ?files, num_answer_images := length ?files \<rparr>"
  let ?ev = "evaluate_question w (dict_get d ''question'') ?files ?entry"
  let ?e1 = "fst (fst ?ev)"
  note pe = process_item_evaluated [OF v, unfolded Let_def]
  show ?thesis
  proof (cases "snd (fst ?ev)")
    case None
    with pe p have "eo = Some ?e1" by simp
    moreover have "?e1 = ?e1\<lparr> error_message := error_message ?e1,
                       category_scores := category_scores ?e1, total_score := total_score ?e1 \<rparr>"
      by simp
    ultimately show ?thesis by metis
  next
    case (Some r)
    obtain scores err where r: "r = (scores, err)" by (cases r)
    show ?thesis
    proof (cases "fst (record_outcome w ?e1 scores err)")
      case (Inl x)
      with pe p Some r show ?thesis by simp
    next
      case (Inr e')
      with pe p Some r have eo: "eo = Some e'" by simp
      from record_outcome_entry [OF Inr]
      have "\<exists>m c t. e' = ?e1\<lparr> error_message := m, category_scores := c, total_score := t \<rparr>"
      proof (elim disjE conjE exE)
        assume "e' = ?e1\<lparr> error_message := err \<rparr>"
        then have "e' = ?e1\<lparr> error_message := err,
                       category_scores := category_scores ?e1, total_score := total_score ?e1 \<rparr>"
          by simp
        then show ?thesis by metis
      next
        fix summed
        assume "e' = ?e1\<lparr> category_scores := scores, total_score := summed \<rparr>"
        then have "e' = ?e1\<lparr> error_message := error_message ?e1,
                       category_scores := scores, total_score := summed \<rparr>"
          by simp
        then show ?thesis by metis
      next
        assume "e' = ?e1\<lparr> error_message :=
                        Some ''Evaluation completed but no scores were returned.'' \<rparr>"
        then have "e' = ?e1\<lparr> error_message :=
                        Some ''Evaluation completed but no scores were returned.'',
                       category_scores := category_scores ?e1, total_score := total_score ?e1 \<rparr>"
          by simp
        then show ?thesis by metis
      qed
      with eo show ?thesis by metis
    qed
  qed
qed

lemma process_item_evaluated_fields:
  assumes v: "valid_item w d" "isdir w (answer_folder w a d)"
    "listdir w (answer_folder w a d) = Inr names"
    "answer_image_files_of (answer_folder w a d) names \<noteq> []"
    and p: "fst (process_item w a (JObject d)) = Inr eo"
  shows "\<exists>e. eo = Some e
           \<and> question_type e
               = Some (if is_image_question (dict_get d ''question'') then ''Image'' else ''Text'')
           \<and> question_path_or_text e
               = (if is_image_question (dict_get d ''question'')
                  then JString (path_join (script_dir w) (str_value (dict_get d ''question'')))
                  else dict_get d ''question'')
           \<and> answer_image_paths e = answer_image_files_of (answer_folder w a d) names
           \<and> num_answer_images e = length (answer_image_files_of (answer_folder w a d) names)
           \<and> question_id e = dict_get d ''id''
           \<and> question_raw e = dict_get d ''question''
           \<and> subject e = dict_get_default d ''subject'' (JString ''N/A'')"
proof -
  from process_item_evaluated_entry [OF v p] obtain e m c t where
    e: "eo = Some e"
       "e = (fst (fst (evaluate_question w (dict_get d ''question'')
                       (answer_image_files_of (answer_folder w a d) names)
                       ((new_entry (dict_get d ''id'')
                           (dict_get_default d ''subject'' (JString ''N/A''))
                           (dict_get d ''question''))
                        \<lparr> answer_image_paths := answer_image_files_of (answer_folder w a d) names,
                          num_answer_images :=
                            length (answer_image_files_of (answer_folder w a d) names) \<rparr>))))
                 \<lparr> error_message := m, category_scores := c, total_score := t \<rparr>"
    by (elim exE conjE)
  show ?thesis
    unfolding e(1) by (rule exI [of _ e]) (simp add: e(2) evaluate_question_entry new_entry_def)
qed

lemma endswith_append: "endswith s x \<Longrightarrow> endswith (p @ s) x"
  by (auto simp: endswith_def)

lemma endswith_last: "endswith s x \<Longrightarrow> x \<noteq> [] \<Longrightarrow> last s = last x"
proof -
  assume e: "endswith s x" and x: "x \<noteq> []"
  then have l: "length x \<le> length s" and d: "drop (length s - length x) s = x"
    by (simp_all add: endswith_def)
  from l x have "length s - length x < length s" by (cases x) auto
  then have "last (drop (length s - length x) s) = last s" by (rule last_drop)
  with d show ?thesis by simp
qed

lemma endswith_same_length:
  "endswith s x \<Longrightarrow> endswith s y \<Longrightarrow> length x = length y \<Longrightarrow> x = y"
  by (auto simp: endswith_def)

lemma endswith_any_append: "endswith_any s xs \<Longrightarrow> endswith_any (p @ s) xs"
  by (auto simp: endswith_any_def list_ex_iff intro: endswith_append)

lemma path_join_suffix: "\<exists>pre. path_join a b = pre @ b"
proof (cases "b \<noteq> [] \<and> hd b = CHR ''/''")
  case True
  then have "path_join a b = [] @ b" by (simp add: path_join_def)
  then show ?thesis by (rule exI)
next
  case False
  show ?thesis
  proof (cases "a = [] \<or> last a = CHR ''/''")
    case True
    with False have "path_join a b = a @ b" by (auto simp: path_join_def)
    then show ?thesis by (rule exI)
  next
    case f: False
    with False have "path_join a b = (a @ ''/'') @ b" by (auto simp: path_join_def)
    then show ?thesis by (rule exI)
  qed
qed

lemma lower_append: "lower (p @ s) = lower p @ lower s"
  by (simp add: lower_def)

lemma answer_image_path:
  "is_answer_image f \<Longrightarrow> is_answer_image (path_join folder f)"
proof -
  assume f: "is_answer_image f"
  obtain pre where "path_join folder f = pre @ f"
    using path_join_suffix [of folder f] by (elim exE)
  with f show ?thesis
    by (simp add: is_answer_image_def lower_append endswith_any_append)
qed

lemma gif_bmp_not_question:
  assumes "endswith s ''.gif'' \<or> endswith s ''.bmp''"
  shows "\<not> endswith_any s [''.png'', ''.jpg'', ''.jpeg'']"
proof
  assume "endswith_any s [''.png'', ''.jpg'', ''.jpeg'']"
  then consider "endswith s ''.png''" | "endswith s ''.jpg''" | "endswith s ''.jpeg''"
    by (auto simp: endswith_any_def)
  then show False
  proof cases
    case 1
    from assms show False
    proof
      assume "endswith s ''.gif''"
      from endswith_same_length [OF this 1] show False by simp
    next
      assume "endswith s ''.bmp''"
      from endswith_same_length [OF this 1] show False by simp
    qed
  next
    case 2
    from assms show False
    proof
      assume "endswith s ''.gif''"
      from endswith_same_length [OF this 2] show False by simp
    next
      assume "endswith s ''.bmp''"
      from endswith_same_length [OF this 2] show False by simp
    qed
  next
    case 3
    then have l: "last s = CHR ''g''" using endswith_last [of s "''.jpeg''"] by simp
    from assms show False
    proof
      assume "endswith s ''.gif''"
      then have "last s = CHR ''f''" using endswith_last [of s "''.gif''"] by simp
      with l show False by simp
    next
      assume "endswith s ''.bmp''"
      then have "last s = CHR ''p''" using endswith_last [of s "''.bmp''"] by simp
      with l show False by simp
    qed
  qed
qed

lemma is_image_question_iff:
  "is_image_question q
   \<longleftrightarrow> (\<exists>s. q = JString s \<and> endswith_any (lower s) [''.png'', ''.jpg'', ''.jpeg''])"
  by (cases q) simp_all

lemma question_is_answer_image: "is_image_question (JString s) \<Longrightarrow> is_answer_image s"
  by (auto simp: is_answer_image_def endswith_any_def)

lemma process_item_missing_image:
  assumes v: "valid_item w d" "isdir w (answer_folder w a d)"
    "listdir w (answer_folder w a d) = Inr names"
    "answer_image_files_of (answer_folder w a d) names \<noteq> []"
    and q: "is_image_question (dict_get d ''question'')"
    and f: "\<not> isfile w (path_join (script_dir w) (str_value (dict_get d ''question'')))"
  shows "process_item w a (JObject d) =
     (Inr (Some ((new_entry (dict_get d ''id'')
                    (dict_get_default d ''subject'' (JString ''N/A''))
                    (dict_get d ''question''))
                 \<lparr> answer_image_paths := answer_image_files_of (answer_folder w a d) names,
                   num_answer_images := length (answer_image_files_of (answer_folder w a d) names),
                   question_type := Some ''Image'',
                   question_path_or_text :=
                     JString (path_join (script_dir w) (str_value (dict_get d ''question''))),
                   error_message := Some ''Question image file not found.'' \<rparr>)),
      [Print (Processing_question (dict_get d ''id'')),
       Print (Question_image_not_found
                (path_join (script_dir w) (str_value (dict_get d ''question''))))])"
  using assms
  by (simp add: process_item_def valid_item_def answer_folder_def evaluate_question_def Let_def)

lemma written_encode: "written (snd (encode_image_to_data_url w p)) = []"
  by (simp add: encode_image_to_data_url_def Let_def split: file_read.splits)

lemma written_encode_answers: "written (snd (encode_answers w ps)) = []"
proof (induction ps)
  case Nil
  show ?case by simp
next
  case (Cons p ps)
  obtain u evs where e: "encode_image_to_data_url w p = (u, evs)" by (cases "encode_image_to_data_url w p")
  obtain r evs' where r: "encode_answers w ps = (r, evs')" by (cases "encode_answers w ps")
  from e have "written evs = []" using written_encode [of w p] by simp
  moreover from r Cons have "written evs' = []" by simp
  ultimately show ?case
    by (simp add: e r written_append split: sum.splits)
qed

lemma written_parse: "written (snd (parse_gpt_response w s)) = []"
  by (simp add: parse_gpt_response_def Let_def split: loads_result.splits)

lemma written_request_scores: "written (snd (request_scores w parts)) = []"
proof (cases "chat_create w parts")
  case (Api_content c)
  obtain v evs where p: "parse_gpt_response w (strip c) = (v, evs)"
    by (cases "parse_gpt_response w (strip c)")
  with written_parse [of w "strip c"] have "written evs = []" by simp
  with Api_content p show ?thesis by (simp add: request_scores_def Let_def)
next
  case (Api_openai_error e)
  then show ?thesis by (simp add: request_scores_def)
next
  case (Api_other_error e)
  then show ?thesis by (simp add: request_scores_def)
qed

lemma written_request_scores_pair: "request_scores w parts = (r, evs) \<Longrightarrow> written evs = []"
  using written_request_scores [of w parts] by simp

lemma written_encode_pair: "encode_image_to_data_url w p = (u, evs) \<Longrightarrow> written evs = []"
  using written_encode [of w p] by simp

lemma written_encode_answers_pair: "encode_answers w ps = (r, evs) \<Longrightarrow> written evs = []"
  using written_encode_answers [of w ps] by simp

lemma written_image_single_pair:
  "evaluate_image_q_single_a w q a = (r, evs) \<Longrightarrow> written evs = []"
  by (auto simp: evaluate_image_q_single_a_def written_append
           split: prod.splits if_splits
           dest: written_request_scores_pair written_encode_pair)

lemma written_text_single_pair:
  "evaluate_text_q_single_a w t a = (r, evs) \<Longrightarrow> written evs = []"
  by (auto simp: evaluate_text_q_single_a_def written_append
           split: prod.splits if_splits
           dest: written_request_scores_pair written_encode_pair)

lemma written_text_multiple_pair:
  "evaluate_text_q_multiple_a w t ps = (r, evs) \<Longrightarrow> written evs = []"
  by (auto simp: evaluate_text_q_multiple_a_def written_append
           split: prod.splits sum.splits
           dest: written_request_scores_pair written_encode_answers_pair)

lemma written_image_multiple_pair:
  "evaluate_image_q_multiple_a w q ps = (r, evs) \<Longrightarrow> written evs = []"
  by (auto simp: evaluate_image_q_multiple_a_def written_append
           split: prod.splits sum.splits if_splits
           dest: written_request_scores_pair written_encode_pair written_encode_answers_pair)

lemma written_evaluate_question_pair:
  "evaluate_question w qc files e = (r, evs) \<Longrightarrow> written evs = []"
  by (auto simp: evaluate_question_def Let_def
           split: prod.splits if_splits
           dest: written_image_single_pair written_image_multiple_pair
                 written_text_single_pair written_text_multiple_pair)

lemma written_record_outcome: "written (snd (record_outcome w e scores err)) = []"
  by (simp add: record_outcome_def split: sum.splits)

lemma written_record_outcome_pair:
  "record_outcome w e scores err = (r, evs) \<Longrightarrow> written evs = []"
  using written_record_outcome [of w e scores err] by simp

lemma written_process_item: "written (snd (process_item w a item)) = []"
proof (cases item)
  case (JObject d)
  show ?thesis
    unfolding JObject
    by (auto simp: process_item_def Let_def written_append
             split: prod.splits sum.splits option.splits
             dest: written_evaluate_question_pair written_record_outcome_pair)
qed (simp_all add: process_item_def)

lemma written_run_items: "written (events (run_items w a items)) = []"
proof (induction items)
  case Nil
  show ?case by simp
next
  case (Cons item rest)
  obtain r evs where p: "process_item w a item = (r, evs)" by (cases "process_item w a item")
  with written_process_item [of w a item] have "written evs = []" by simp
  with Cons p show ?case
    by (cases r) (simp_all add: Let_def written_append)
qed

text \<open>Every entry the loop body records satisfies the invariant.\<close>

lemma new_entry_total_ok: "total_score_ok w (new_entry i s q)"
  by (simp add: total_score_ok_def new_entry_def)

lemma total_score_ok_frame:
  "category_scores e' = category_scores e \<Longrightarrow> total_score e' = total_score e
   \<Longrightarrow> total_score_ok w e \<Longrightarrow> total_score_ok w e'"
  by (cases "category_scores e") (simp_all add: total_score_ok_def)

lemma evaluate_question_total_ok:
  "total_score_ok w e \<Longrightarrow> total_score_ok w (fst (fst (evaluate_question w qc files e)))"
  by (rule total_score_ok_frame [of _ e]) (simp_all add: evaluate_question_entry)

lemma record_outcome_total_ok:
  assumes "fst (record_outcome w e scores err) = Inr e'" and "total_score_ok w e"
  shows "total_score_ok w e'"
  using record_outcome_entry [OF assms(1)]
proof (elim disjE conjE exE)
  assume "e' = e\<lparr> error_message := err \<rparr>"
  then show ?thesis by (intro total_score_ok_frame [OF _ _ assms(2)]) simp_all
next
  fix summed
  assume "e' = e\<lparr> category_scores := scores, total_score := summed \<rparr>"
    and "(case scores of JObject kvs \<Rightarrow> py_sum w (map snd kvs) | _ \<Rightarrow> Inr (PInt 0)) = Inr summed"
  then show ?thesis by (cases scores) (simp_all add: total_score_ok_def)
next
  assume "e' = e\<lparr> error_message := Some ''Evaluation completed but no scores were returned.'' \<rparr>"
  then show ?thesis by (intro total_score_ok_frame [OF _ _ assms(2)]) simp_all
qed

lemma process_item_total_ok:
  assumes "fst (process_item w a item) = Inr (Some e)"
  shows "total_score_ok w e"
proof (cases item)
  case (JObject d)
  let ?new = "new_entry (dict_get d ''id'') (dict_get_default d ''subject'' (JString ''N/A''))
                (dict_get d ''question'')"
  note p = assms [unfolded JObject]
  show ?thesis
  proof (cases "valid_item w d")
    case False
    with p show ?thesis by (simp add: process_item_skipped)
  next
    case v: True
    show ?thesis
    proof (cases "isdir w (answer_folder w a d)")
      case False
      with v p have "e = ?new\<lparr> error_message := Some ''Answer folder not found.'' \<rparr>"
        by (simp add: process_item_no_folder)
      then show ?thesis by (simp add: total_score_ok_def new_entry_def)
    next
      case i: True
      show ?thesis
      proof (cases "listdir w (answer_folder w a d)")
        case (Inl x)
        with v i p show ?thesis by (simp add: process_item_listdir_error)
      next
        case (Inr names)
        let ?files = "answer_image_files_of (answer_folder w a d) names"
        show ?thesis
        proof (cases "?files = []")
          case True
          with v i Inr p
          have "e = ?new\<lparr> answer_image_paths := [], num_answer_images := 0,
                          error_message := Some ''No answer images found.'' \<rparr>"
            by (simp add: process_item_no_images)
          then show ?thesis by (simp add: total_score_ok_def new_entry_def)
        next
          case False
          let ?entry = "?new\<lparr> answer_image_paths := ?files, num_answer_images := length ?files \<rparr>"
          let ?ev = "evaluate_question w (dict_get d ''question'') ?files ?entry"
          have "total_score_ok w ?entry"
            by (simp add: total_score_ok_def new_entry_def)
          then have e1: "total_score_ok w (fst (fst ?ev))"
            by (rule evaluate_question_total_ok)
          note pe = process_item_evaluated [OF v i Inr False, unfolded Let_def]
          show ?thesis
          proof (cases "snd (fst ?ev)")
            case None
            with pe p have "e = fst (fst ?ev)" by simp
            with e1 show ?thesis by simp
          next
            case (Some r)
            obtain scores err where r: "r = (scores, err)" by (cases r)
            show ?thesis
            proof (cases "fst (record_outcome w (fst (fst ?ev)) scores err)")
              case (Inl x)
              with pe p Some r show ?thesis by simp
            next
              case (Inr e')
              with pe p Some r have "e = e'" by simp
              with record_outcome_total_ok [OF Inr e1] show ?thesis by simp
            qed
          qed
        qed
      qed
    qed
  qed
qed (use assms in \<open>simp_all add: process_item_def\<close>)

lemma run_items_total_ok:
  "e \<in> set (all_results (run_items w a items)) \<Longrightarrow> total_score_ok w e"
proof (induction items)
  case Nil
  then show ?case by simp
next
  case (Cons item rest)
  obtain r evs where p: "process_item w a item = (r, evs)" by (cases "process_item w a item")
  show ?case
  proof (cases r)
    case (Inl x)
    with p Cons.prems show ?thesis by simp
  next
    case (Inr eo)
    show ?thesis
    proof (cases eo)
      case None
      with Inr p Cons show ?thesis by (simp add: Let_def)
    next
      case (Some e1)
      with Inr p have "fst (process_item w a item) = Inr (Some e1)" by simp
      then have "total_score_ok w e1" by (rule process_item_total_ok)
      with Some Inr p Cons show ?thesis by (auto simp: Let_def)
    qed
  qed
qed

text \<open>What \<open>main\<close> adds to the loop.\<close>

lemma main_results:
  "all_results (main w a) = [] \<or>
   (\<exists>data items. load_json_file w (questions_file a) = Loaded data
      \<and> iter_items data = Inr items
      \<and> all_results (main w a) = all_results (run_items w a items))"
  by (auto simp: main_def Let_def split: load_result.splits sum.splits option.splits)

lemma main_written:
  "written (events (main w a)) = []
   \<or> (\<exists>path. written (events (main w a)) = [(path, all_results (main w a))]
         \<and> raised (main w a) = None)"
  by (auto simp: main_def Let_def written_append written_run_items
           split: load_result.splits sum.splits option.splits)

lemma py_sum_integers:
  "list_all is_integer vs \<Longrightarrow> py_sum w vs = Inr (PInt (sum_list (map int_value vs)))"
  using sum_from_integers [of "[]" vs w] by (simp add: py_sum_def)

section \<open>The claims about the batch runner\<close>

text \<open>
  Claim C1 says that an image-extension question whose file does not exist has
  \<open>question_type\<close> \<open>Text\<close>. Item \<open>q2\<close> of the example dataset asks \<open>fig1.png\<close>, which does
  not exist: its entry has \<open>question_type\<close> \<open>Image\<close>.
\<close>

theorem image_type_without_file_counterexample:
  "\<not> isfile example_world (path_join (script_dir example_world) ''fig1.png'')
   \<and> map question_type (all_results (run_items example_world example_args
         [JObject [(''id'', JString ''q2''), (''question'', JString ''fig1.png''),
                   (''subject'', JString ''math'')]]))
       = [Some ''Image'']
   \<and> map error_message (all_results (run_items example_world example_args
         [JObject [(''id'', JString ''q2''), (''question'', JString ''fig1.png''),
                   (''subject'', JString ''math'')]]))
       = [Some ''Question image file not found.'']"
  by code_simp

text \<open>
  Claim C1, as the code has it. For an item that reaches the modality test (it has an
  \<open>id\<close> and a \<open>question\<close>, and its answer folder holds an image), \<open>question_type\<close> is
  \<open>Image\<close> exactly when the question is a string that ends, case ignored, in \<open>.png\<close>,
  \<open>.jpg\<close> or \<open>.jpeg\<close>, and \<open>Text\<close> exactly when it is not; whether the file exists plays no
  part. When the file of an image question does not exist, the entry keeps \<open>Image\<close>,
  records the error \<open>Question image file not found.\<close> with null scores, and no request
  is sent.
\<close>

theorem question_type_by_extension:
  "(valid_item w d \<and> isdir w (answer_folder w a d)
    \<and> listdir w (answer_folder w a d) = Inr names
    \<and> filter is_answer_image names \<noteq> []
    \<and> fst (process_item w a (JObject d)) = Inr eo
      \<longrightarrow> (\<exists>e. eo = Some e
               \<and> (question_type e = Some ''Image''
                    \<longleftrightarrow> (\<exists>s. dict_get d ''question'' = JString s
                             \<and> endswith_any (lower s) [''.png'', ''.jpg'', ''.jpeg'']))
               \<and> (question_type e = Some ''Text''
                    \<longleftrightarrow> \<not> (\<exists>s. dict_get d ''question'' = JString s
                               \<and> endswith_any (lower s) [''.png'', ''.jpg'', ''.jpeg'']))))
   \<and> (valid_item w d \<and> isdir w (answer_folder w a d)
       \<and> listdir w (answer_folder w a d) = Inr names
       \<and> filter is_answer_image names \<noteq> []
       \<and> dict_get d ''question'' = JString s
       \<and> endswith_any (lower s) [''.png'', ''.jpg'', ''.jpeg'']
       \<and> \<not> isfile w (path_join (script_dir w) s)
      \<longrightarrow> (\<exists>e. fst (process_item w a (JObject d)) = Inr (Some e)
               \<and> question_type e = Some ''Image''
               \<and> question_path_or_text e = JString (path_join (script_dir w) s)
               \<and> error_message e = Some ''Question image file not found.''
               \<and> category_scores e = JNull)
          \<and> requests (snd (process_item w a (JObject d))) = [])"
proof (intro conjI impI)
  assume h: "valid_item w d \<and> isdir w (answer_folder w a d)
    \<and> listdir w (answer_folder w a d) = Inr names
    \<and> filter is_answer_image names \<noteq> []
    \<and> fst (process_item w a (JObject d)) = Inr eo"
  then have v: "valid_item w d" "isdir w (answer_folder w a d)"
    "listdir w (answer_folder w a d) = Inr names"
    and ne: "answer_image_files_of (answer_folder w a d) names \<noteq> []"
    and p: "fst (process_item w a (JObject d)) = Inr eo"
    by (simp_all add: no_images_iff)
  from process_item_evaluated_fields [OF v ne p] obtain e where
    e: "eo = Some e"
       "question_type e
        = Some (if is_image_question (dict_get d ''question'') then ''Image'' else ''Text'')"
    by (elim exE conjE)
  show "\<exists>e. eo = Some e
          \<and> (question_type e = Some ''Image''
               \<longleftrightarrow> (\<exists>s. dict_get d ''question'' = JString s
                        \<and> endswith_any (lower s) [''.png'', ''.jpg'', ''.jpeg'']))
          \<and> (question_type e = Some ''Text''
               \<longleftrightarrow> \<not> (\<exists>s. dict_get d ''question'' = JString s
                          \<and> endswith_any (lower s) [''.png'', ''.jpg'', ''.jpeg'']))"
    by (rule exI [of _ e]) (simp add: e is_image_question_iff [symmetric])
next
  assume h: "valid_item w d \<and> isdir w (answer_folder w a d)
       \<and> listdir w (answer_folder w a d) = Inr names
       \<and> filter is_answer_image names \<noteq> []
       \<and> dict_get d ''question'' = JString s
       \<and> endswith_any (lower s) [''.png'', ''.jpg'', ''.jpeg'']
       \<and> \<not> isfile w (path_join (script_dir w) s)"
  then have v: "valid_item w d" "isdir w (answer_folder w a d)"
    "listdir w (answer_folder w a d) = Inr names"
    and ne: "answer_image_files_of (answer_folder w a d) names \<noteq> []"
    and q: "is_image_question (dict_get d ''question'')"
    and f: "\<not> isfile w (path_join (script_dir w) (str_value (dict_get d ''question'')))"
    and s: "dict_get d ''question'' = JString s"
    by (simp_all add: no_images_iff)
  note m = process_item_missing_image [OF v ne q f]
  show "\<exists>e. fst (process_item w a (JObject d)) = Inr (Some e)
          \<and> question_type e = Some ''Image''
          \<and> question_path_or_text e = JString (path_join (script_dir w) s)
          \<and> error_message e = Some ''Question image file not found.''
          \<and> category_scores e = JNull"
    by (simp add: m s new_entry_def)
  show "requests (snd (process_item w a (JObject d))) = []"
    by (simp add: m)
qed

text \<open>The items \<open>q2\<close> (image question, file missing) and \<open>q1\<close> (text question).\<close>

theorem question_type_by_extension_witness:
  "valid_item example_world [(''id'', JString ''q2''), (''question'', JString ''fig1.png'')]
   \<and> answer_folder example_world example_args
        [(''id'', JString ''q2''), (''question'', JString ''fig1.png'')] = ''/repo/data/q2''
   \<and> isdir example_world ''/repo/data/q2''
   \<and> listdir example_world ''/repo/data/q2'' = Inr [''b.JPG'', ''a.gif'', ''readme.md'']
   \<and> filter is_answer_image [''b.JPG'', ''a.gif'', ''readme.md''] \<noteq> []
   \<and> endswith_any (lower ''fig1.png'') [''.png'', ''.jpg'', ''.jpeg'']
   \<and> \<not> isfile example_world (path_join (script_dir example_world) ''fig1.png'')
   \<and> (\<exists>e. fst (process_item example_world example_args
                (JObject [(''id'', JString ''q2''), (''question'', JString ''fig1.png'')]))
            = Inr (Some e)
          \<and> question_type e = Some ''Image''
          \<and> error_message e = Some ''Question image file not found.'')
   \<and> valid_item example_world [(''id'', JString ''q1''), (''question'', JString ''What is 2+3?'')]
   \<and> answer_folder example_world example_args
        [(''id'', JString ''q1''), (''question'', JString ''What is 2+3?'')] = ''/repo/data/q1''
   \<and> isdir example_world ''/repo/data/q1''
   \<and> listdir example_world ''/repo/data/q1'' = Inr [''notes.txt'', ''a.png'']
   \<and> filter is_answer_image [''notes.txt'', ''a.png''] \<noteq> []
   \<and> (\<exists>e. fst (process_item example_world example_args
                (JObject [(''id'', JString ''q1''), (''question'', JString ''What is 2+3?'')]))
            = Inr (Some e)
          \<and> question_type e = Some ''Text'')"
proof -
  let ?d2 = "[(''id'', JString ''q2''), (''question'', JString ''fig1.png'')] :: (string \<times> unit json) list"
  let ?d1 = "[(''id'', JString ''q1''), (''question'', JString ''What is 2+3?'')] :: (string \<times> unit json) list"
  have v: "valid_item example_world ?d2" "valid_item example_world ?d1"
    by (simp_all add: valid_item_def dict_get_def)
  have q: "dict_get ?d2 ''question'' = JString ''fig1.png''"
          "dict_get ?d1 ''question'' = JString ''What is 2+3?''"
    by (simp_all add: dict_get_def)
  have f: "answer_folder example_world example_args ?d2 = ''/repo/data/q2''"
          "answer_folder example_world example_args ?d1 = ''/repo/data/q1''"
    by (simp_all add: answer_folder_def dict_get_def py_str_def path_join_def example_args_def)
  have i: "isdir example_world ''/repo/data/q2''" "isdir example_world ''/repo/data/q1''"
    by (simp_all add: example_world_def)
  have l: "listdir example_world ''/repo/data/q2'' = Inr [''b.JPG'', ''a.gif'', ''readme.md'']"
          "listdir example_world ''/repo/data/q1'' = Inr [''notes.txt'', ''a.png'']"
    by (simp_all add: example_world_def example_listdir_def)
  have n: "filter is_answer_image [''b.JPG'', ''a.gif'', ''readme.md''] \<noteq> []"
          "filter is_answer_image [''notes.txt'', ''a.png''] \<noteq> []"
    by code_simp+
  have x: "endswith_any (lower ''fig1.png'') [''.png'', ''.jpg'', ''.jpeg'']"
    by code_simp
  have nx: "\<not> (\<exists>s. JString ''What is 2+3?'' = (JString s :: unit json)
                  \<and> endswith_any (lower s) [''.png'', ''.jpg'', ''.jpeg''])"
  proof -
    have "\<not> endswith_any (lower ''What is 2+3?'') [''.png'', ''.jpg'', ''.jpeg'']"
      by code_simp
    then show ?thesis by simp
  qed
  have nf: "\<not> isfile example_world (path_join (script_dir example_world) ''fig1.png'')"
    by code_simp
  have "\<not> isl (fst (process_item example_world example_args (JObject ?d1)))"
    by code_simp
  then obtain eo where eo: "fst (process_item example_world example_args (JObject ?d1)) = Inr eo"
    by (cases "fst (process_item example_world example_args (JObject ?d1))") simp_all
  have r2: "\<exists>e. fst (process_item example_world example_args (JObject ?d2)) = Inr (Some e)
          \<and> question_type e = Some ''Image''
          \<and> error_message e = Some ''Question image file not found.''"
    using question_type_by_extension
            [of example_world ?d2 example_args "[''b.JPG'', ''a.gif'', ''readme.md'']" eo "''fig1.png''"]
          v(1) q(1) f(1) i(1) l(1) n(1) x nf
    by auto
  have r1: "\<exists>e. fst (process_item example_world example_args (JObject ?d1)) = Inr (Some e)
          \<and> question_type e = Some ''Text''"
    using question_type_by_extension
            [of example_world ?d1 example_args "[''notes.txt'', ''a.png'']" eo "''fig1.png''"]
          v(2) q(2) f(2) i(2) l(2) n(2) nx eo
    by auto
  from v f i l n x nf r2 r1 show ?thesis by simp
qed

lemma process_item_question_type:
  assumes "fst (process_item w a (JObject d)) = Inr (Some e)"
  shows "question_type e = None
         \<or> question_type e
             = Some (if is_image_question (dict_get d ''question'') then ''Image'' else ''Text'')"
proof (cases "valid_item w d")
  case False
  with assms show ?thesis by (simp add: process_item_skipped)
next
  case v: True
  show ?thesis
  proof (cases "isdir w (answer_folder w a d)")
    case False
    with v assms show ?thesis by (auto simp: process_item_no_folder new_entry_def)
  next
    case i: True
    show ?thesis
    proof (cases "listdir w (answer_folder w a d)")
      case (Inl m)
      with v i assms show ?thesis by (simp add: process_item_listdir_error)
    next
      case (Inr names)
      show ?thesis
      proof (cases "answer_image_files_of (answer_folder w a d) names = []")
        case True
        with v i Inr assms show ?thesis by (auto simp: process_item_no_images new_entry_def)
      next
        case False
        from process_item_evaluated_fields [OF v i Inr False assms] show ?thesis by auto
      qed
    qed
  qed
qed

text \<open>
  Claim C10 says that every question whose text ends in \<open>.gif\<close> or \<open>.bmp\<close> has
  \<open>question_type\<close> \<open>Text\<close>. An item that asks \<open>drawing.GIF\<close> and whose answer folder \<open>q9\<close>
  does not exist is recorded before the modality test: its \<open>question_type\<close> is null.
\<close>

theorem gif_question_without_folder_counterexample:
  "endswith (lower ''drawing.GIF'') ''.gif''
   \<and> map question_type (all_results (run_items example_world example_args
         [JObject [(''id'', JString ''q9''), (''question'', JString ''drawing.GIF'')]]))
       = [None]"
  by code_simp

text \<open>
  Claim C10, as the code has it. The extensions that make a question an image question
  (\<open>.png\<close>, \<open>.jpg\<close>, \<open>.jpeg\<close>) are among those accepted for answer images, and \<open>.gif\<close> and
  \<open>.bmp\<close> are accepted for answers only. A question whose text ends, case ignored, in
  \<open>.gif\<close> or \<open>.bmp\<close> is not an image question: when its item reaches the modality test (it
  has an \<open>id\<close> and a \<open>question\<close>, its answer folder holds an image, and an entry is
  recorded) the entry has \<open>question_type\<close> \<open>Text\<close> and the text itself as
  \<open>question_path_or_text\<close>, whatever files exist (nothing is assumed of \<open>isfile\<close>). No entry
  recorded for such a question has \<open>question_type\<close> \<open>Image\<close>; when the answer folder is
  missing or holds no image, the entry's \<open>question_type\<close> is null.
\<close>

theorem gif_bmp_question_is_text:
  "(is_image_question (JString s) \<longrightarrow> is_answer_image s)
   \<and> (endswith (lower q) ''.gif'' \<or> endswith (lower q) ''.bmp''
      \<longrightarrow> is_answer_image q
          \<and> \<not> is_image_question (JString q)
          \<and> (valid_item w d \<and> dict_get d ''question'' = JString q
               \<and> isdir w (answer_folder w a d)
               \<and> listdir w (answer_folder w a d) = Inr names
               \<and> filter is_answer_image names \<noteq> []
               \<and> fst (process_item w a (JObject d)) = Inr eo
              \<longrightarrow> (\<exists>e. eo = Some e \<and> question_type e = Some ''Text''
                       \<and> question_path_or_text e = JString q))
          \<and> (dict_get d ''question'' = JString q
               \<and> fst (process_item w a (JObject d)) = Inr (Some e)
              \<longrightarrow> question_type e \<noteq> Some ''Image''
                  \<and> (question_type e = Some ''Text'' \<or> question_type e = None))
          \<and> (valid_item w d \<and> dict_get d ''question'' = JString q
               \<and> (\<not> isdir w (answer_folder w a d)
                    \<or> (listdir w (answer_folder w a d) = Inr names
                        \<and> filter is_answer_image names = []))
              \<longrightarrow> (\<exists>e. fst (process_item w a (JObject d)) = Inr (Some e)
                       \<and> question_type e = None)))"
proof (intro conjI impI)
  assume "is_image_question (JString s)"
  then show "is_answer_image s" by (rule question_is_answer_image)
next
  assume g: "endswith (lower q) ''.gif'' \<or> endswith (lower q) ''.bmp''"
  then show "is_answer_image q"
    by (auto simp: is_answer_image_def endswith_any_def)
  from gif_bmp_not_question [OF g] show nq: "\<not> is_image_question (JString q)"
    by simp
  {
    assume h: "valid_item w d \<and> dict_get d ''question'' = JString q
                 \<and> isdir w (answer_folder w a d)
                 \<and> listdir w (answer_folder w a d) = Inr names
                 \<and> filter is_answer_image names \<noteq> []
                 \<and> fst (process_item w a (JObject d)) = Inr eo"
    then have v: "valid_item w d" "isdir w (answer_folder w a d)"
      "listdir w (answer_folder w a d) = Inr names"
      and ne: "answer_image_files_of (answer_folder w a d) names \<noteq> []"
      and p: "fst (process_item w a (JObject d)) = Inr eo"
      and q: "dict_get d ''question'' = JString q"
      by (simp_all add: no_images_iff)
    from process_item_evaluated_fields [OF v ne p] nq q
    show "\<exists>e. eo = Some e \<and> question_type e = Some ''Text''
            \<and> question_path_or_text e = JString q"
      by auto
  }
  {
    assume h: "dict_get d ''question'' = JString q
               \<and> fst (process_item w a (JObject d)) = Inr (Some e)"
    then have q: "dict_get d ''question'' = JString q"
      and p: "fst (process_item w a (JObject d)) = Inr (Some e)" by simp_all
    from process_item_question_type [OF p] nq q
    have t: "question_type e = None \<or> question_type e = Some ''Text''" by simp
    then show "question_type e \<noteq> Some ''Image''" by auto
    from t show "question_type e = Some ''Text'' \<or> question_type e = None" by auto
  }
  {
    assume h: "valid_item w d \<and> dict_get d ''question'' = JString q
               \<and> (\<not> isdir w (answer_folder w a d)
                    \<or> (listdir w (answer_folder w a d) = Inr names
                        \<and> filter is_answer_image names = []))"
    then have v: "valid_item w d" by simp
    show "\<exists>e. fst (process_item w a (JObject d)) = Inr (Some e) \<and> question_type e = None"
    proof (cases "isdir w (answer_folder w a d)")
      case False
      with v show ?thesis by (simp add: process_item_no_folder new_entry_def)
    next
      case True
      with h have l: "listdir w (answer_folder w a d) = Inr names"
        and "filter is_answer_image names = []" by simp_all
      then have "answer_image_files_of (answer_folder w a d) names = []"
        by (simp add: no_images_iff)
      with v True l show ?thesis by (simp add: process_item_no_images new_entry_def)
    qed
  }
qed

text \<open>
  The question \<open>drawing.GIF\<close> with the answer folder \<open>q5\<close>, which holds a \<open>.bmp\<close>, and with
  the missing folder \<open>q9\<close>.
\<close>

theorem gif_bmp_question_is_text_witness:
  "endswith (lower ''drawing.GIF'') ''.gif''
   \<and> is_answer_image ''drawing.GIF''
   \<and> \<not> is_image_question (JString ''drawing.GIF'' :: unit json)
   \<and> is_image_question (JString ''fig_ok.png'' :: unit json) \<and> is_answer_image ''fig_ok.png''
   \<and> valid_item example_world [(''id'', JString ''q5''), (''question'', JString ''drawing.GIF'')]
   \<and> answer_folder example_world example_args
        [(''id'', JString ''q5''), (''question'', JString ''drawing.GIF'')] = ''/repo/data/q5''
   \<and> isdir example_world ''/repo/data/q5''
   \<and> listdir example_world ''/repo/data/q5'' = Inr [''only.bmp'']
   \<and> filter is_answer_image [''only.bmp''] \<noteq> []
   \<and> (\<exists>e. fst (process_item example_world example_args
                (JObject [(''id'', JString ''q5''), (''question'', JString ''drawing.GIF'')]))
            = Inr (Some e)
          \<and> question_type e = Some ''Text'' \<and> question_type e \<noteq> Some ''Image''
          \<and> question_path_or_text e = JString ''drawing.GIF'')
   \<and> valid_item example_world [(''id'', JString ''q9''), (''question'', JString ''drawing.GIF'')]
   \<and> answer_folder example_world example_args
        [(''id'', JString ''q9''), (''question'', JString ''drawing.GIF'')] = ''/repo/data/q9''
   \<and> \<not> isdir example_world ''/repo/data/q9''
   \<and> (\<exists>e. fst (process_item example_world example_args
                (JObject [(''id'', JString ''q9''), (''question'', JString ''drawing.GIF'')]))
            = Inr (Some e)
          \<and> question_type e = None)"
proof -
  let ?d = "[(''id'', JString ''q5''), (''question'', JString ''drawing.GIF'')] :: (string \<times> unit json) list"
  let ?d9 = "[(''id'', JString ''q9''), (''question'', JString ''drawing.GIF'')] :: (string \<times> unit json) list"
  have g: "endswith (lower ''drawing.GIF'') ''.gif''"
    by code_simp
  have iq: "is_image_question (JString ''fig_ok.png'' :: unit json)"
    by code_simp
  have v: "valid_item example_world ?d" and v9: "valid_item example_world ?d9"
    by (simp_all add: valid_item_def dict_get_def)
  have q: "dict_get ?d ''question'' = JString ''drawing.GIF''"
    and q9: "dict_get ?d9 ''question'' = JString ''drawing.GIF''"
    by (simp_all add: dict_get_def)
  have f: "answer_folder example_world example_args ?d = ''/repo/data/q5''"
    and f9: "answer_folder example_world example_args ?d9 = ''/repo/data/q9''"
    by (simp_all add: answer_folder_def dict_get_def py_str_def path_join_def example_args_def)
  have i: "isdir example_world ''/repo/data/q5''" and i9: "\<not> isdir example_world ''/repo/data/q9''"
    by (simp_all add: example_world_def)
  have l: "listdir example_world ''/repo/data/q5'' = Inr [''only.bmp'']"
    by (simp add: example_world_def example_listdir_def)
  have n: "filter is_answer_image [''only.bmp''] \<noteq> []"
    by code_simp
  have "\<not> isl (fst (process_item example_world example_args (JObject ?d)))"
    by code_simp
  then obtain eo where eo: "fst (process_item example_world example_args (JObject ?d)) = Inr eo"
    by (cases "fst (process_item example_world example_args (JObject ?d))") simp_all
  note t0 = gif_bmp_question_is_text
              [of "''fig_ok.png''" "''drawing.GIF''" example_world ?d example_args "[''only.bmp'']" eo]
  from t0 iq have ia: "is_answer_image ''fig_ok.png''" by simp
  from t0 g have a: "is_answer_image ''drawing.GIF''"
    and nq: "\<not> is_image_question (JString ''drawing.GIF'' :: unit json)" by simp_all
  from t0 g v q f i l n eo
  obtain e5 where e5: "eo = Some e5" "question_type e5 = Some ''Text''"
    "question_path_or_text e5 = JString ''drawing.GIF''"
    by auto
  from gif_bmp_question_is_text
         [of "''fig_ok.png''" "''drawing.GIF''" example_world ?d example_args "[''only.bmp'']" eo e5]
       g q eo e5(1)
  have ni: "question_type e5 \<noteq> Some ''Image''" by simp
  from eo e5 ni
  have r5: "\<exists>e. fst (process_item example_world example_args (JObject ?d)) = Inr (Some e)
          \<and> question_type e = Some ''Text'' \<and> question_type e \<noteq> Some ''Image''
          \<and> question_path_or_text e = JString ''drawing.GIF''"
    by simp
  from gif_bmp_question_is_text
         [of "''fig_ok.png''" "''drawing.GIF''" example_world ?d9 example_args "[]" eo e5]
       g v9 q9 f9 i9
  have r9: "\<exists>e. fst (process_item example_world example_args (JObject ?d9)) = Inr (Some e)
          \<and> question_type e = None"
    by simp
  from g a nq iq ia v f i l n r5 v9 f9 i9 r9 show ?thesis by simp
qed



text \<open>
  Claim C7. An item with an \<open>id\<close> and a \<open>question\<close> whose answer folder is missing, or
  holds no image file, still gets an entry: its \<open>category_scores\<close> is null and its
  \<open>error_message\<close> says what was missing; the entry is appended and the loop goes on
  with the rest. An item whose \<open>id\<close> or \<open>question\<close> is missing or empty is skipped with
  the diagnostic line and appends nothing.
\<close>

theorem unanswered_recorded_invalid_skipped:
  "(valid_item w d \<and> \<not> isdir w (answer_folder w a d)
      \<longrightarrow> (\<exists>e. fst (process_item w a (JObject d)) = Inr (Some e)
               \<and> category_scores e = JNull
               \<and> error_message e = Some ''Answer folder not found.''
               \<and> all_results (run_items w a (JObject d # rest))
                   = e # all_results (run_items w a rest)
               \<and> raised (run_items w a (JObject d # rest)) = raised (run_items w a rest)))
   \<and> (valid_item w d \<and> isdir w (answer_folder w a d)
       \<and> listdir w (answer_folder w a d) = Inr names \<and> filter is_answer_image names = []
      \<longrightarrow> (\<exists>e. fst (process_item w a (JObject d)) = Inr (Some e)
               \<and> category_scores e = JNull
               \<and> error_message e = Some ''No answer images found.''
               \<and> all_results (run_items w a (JObject d # rest))
                   = e # all_results (run_items w a rest)
               \<and> raised (run_items w a (JObject d # rest)) = raised (run_items w a rest)))
   \<and> (\<not> valid_item w d
      \<longrightarrow> process_item w a (JObject d) = (Inr None, [Print (Skipping_item (JObject d))])
          \<and> all_results (run_items w a (JObject d # rest)) = all_results (run_items w a rest)
          \<and> raised (run_items w a (JObject d # rest)) = raised (run_items w a rest))"
proof (intro conjI impI)
  assume h: "valid_item w d \<and> \<not> isdir w (answer_folder w a d)"
  let ?e = "(new_entry (dict_get d ''id'') (dict_get_default d ''subject'' (JString ''N/A''))
               (dict_get d ''question'')) \<lparr> error_message := Some ''Answer folder not found.'' \<rparr>"
  from h have p: "fst (process_item w a (JObject d)) = Inr (Some ?e)"
    by (simp add: process_item_no_folder)
  have "category_scores ?e = JNull" "error_message ?e = Some ''Answer folder not found.''"
    by (simp_all add: new_entry_def)
  with p run_items_recorded(1,2) [OF p, of rest]
  show "\<exists>e. fst (process_item w a (JObject d)) = Inr (Some e)
          \<and> category_scores e = JNull
          \<and> error_message e = Some ''Answer folder not found.''
          \<and> all_results (run_items w a (JObject d # rest)) = e # all_results (run_items w a rest)
          \<and> raised (run_items w a (JObject d # rest)) = raised (run_items w a rest)"
    by (intro exI [of _ ?e]) simp
next
  assume h: "valid_item w d \<and> isdir w (answer_folder w a d)
       \<and> listdir w (answer_folder w a d) = Inr names \<and> filter is_answer_image names = []"
  let ?e = "(new_entry (dict_get d ''id'') (dict_get_default d ''subject'' (JString ''N/A''))
               (dict_get d ''question''))
            \<lparr> answer_image_paths := [], num_answer_images := 0,
              error_message := Some ''No answer images found.'' \<rparr>"
  from h have "answer_image_files_of (answer_folder w a d) names = []"
    by (simp add: no_images_iff)
  with h have p: "fst (process_item w a (JObject d)) = Inr (Some ?e)"
    by (simp add: process_item_no_images)
  have "category_scores ?e = JNull" "error_message ?e = Some ''No answer images found.''"
    by (simp_all add: new_entry_def)
  with p run_items_recorded(1,2) [OF p, of rest]
  show "\<exists>e. fst (process_item w a (JObject d)) = Inr (Some e)
          \<and> category_scores e = JNull
          \<and> error_message e = Some ''No answer images found.''
          \<and> all_results (run_items w a (JObject d # rest)) = e # all_results (run_items w a rest)
          \<and> raised (run_items w a (JObject d # rest)) = raised (run_items w a rest)"
    by (intro exI [of _ ?e]) simp
next
  assume h: "\<not> valid_item w d"
  then show p: "process_item w a (JObject d) = (Inr None, [Print (Skipping_item (JObject d))])"
    by (rule process_item_skipped)
  then have q: "fst (process_item w a (JObject d)) = Inr None" by simp
  show "all_results (run_items w a (JObject d # rest)) = all_results (run_items w a rest)"
    by (rule run_items_skipped(1) [OF q])
  show "raised (run_items w a (JObject d # rest)) = raised (run_items w a rest)"
    by (rule run_items_skipped(2) [OF q])
qed

text \<open>The items \<open>q9\<close>, \<open>q4\<close> and the item with the empty \<open>id\<close> of the example dataset.\<close>

theorem unanswered_recorded_invalid_skipped_witness:
  "valid_item example_world [(''id'', JString ''q9''), (''question'', JString ''What is 7 times 8?'')]
   \<and> \<not> isdir example_world (answer_folder example_world example_args
           [(''id'', JString ''q9''), (''question'', JString ''What is 7 times 8?'')])
   \<and> map error_message (all_results (run_items example_world example_args
         [JObject [(''id'', JString ''q9''), (''question'', JString ''What is 7 times 8?'')]]))
       = [Some ''Answer folder not found.'']
   \<and> valid_item example_world [(''id'', JString ''q4''), (''question'', JString ''fig_ok.png'')]
   \<and> isdir example_world (answer_folder example_world example_args
           [(''id'', JString ''q4''), (''question'', JString ''fig_ok.png'')])
   \<and> listdir example_world (answer_folder example_world example_args
           [(''id'', JString ''q4''), (''question'', JString ''fig_ok.png'')]) = Inr [''notes.txt'']
   \<and> filter is_answer_image [''notes.txt''] = []
   \<and> map error_message (all_results (run_items example_world example_args
         [JObject [(''id'', JString ''q4''), (''question'', JString ''fig_ok.png'')]]))
       = [Some ''No answer images found.'']
   \<and> \<not> valid_item example_world [(''id'', JString []), (''question'', JString ''no id'')]
   \<and> all_results (run_items example_world example_args
         [JObject [(''id'', JString []), (''question'', JString ''no id'')]]) = []"
proof -
  let ?d9 = "[(''id'', JString ''q9''), (''question'', JString ''What is 7 times 8?'')] :: (string \<times> unit json) list"
  let ?d4 = "[(''id'', JString ''q4''), (''question'', JString ''fig_ok.png'')] :: (string \<times> unit json) list"
  let ?d0 = "[(''id'', JString []), (''question'', JString ''no id'')] :: (string \<times> unit json) list"
  have v9: "valid_item example_world ?d9" and v4: "valid_item example_world ?d4"
    and v0: "\<not> valid_item example_world ?d0"
    by (simp_all add: valid_item_def dict_get_def)
  have f9: "answer_folder example_world example_args ?d9 = ''/repo/data/q9''"
    and f4: "answer_folder example_world example_args ?d4 = ''/repo/data/q4''"
    by (simp_all add: answer_folder_def dict_get_def py_str_def path_join_def example_args_def)
  have d9: "\<not> isdir example_world ''/repo/data/q9''" and d4: "isdir example_world ''/repo/data/q4''"
    by (simp_all add: example_world_def)
  have l4: "listdir example_world ''/repo/data/q4'' = Inr [''notes.txt'']"
    by (simp add: example_world_def example_listdir_def)
  have n4: "filter is_answer_image [''notes.txt''] = []"
    by (simp add: is_answer_image_def endswith_any_def endswith_def lower_def lower_char_def)
  note t9 = unanswered_recorded_invalid_skipped [of example_world ?d9 example_args "[]" "[]"]
  note t4 = unanswered_recorded_invalid_skipped [of example_world ?d4 example_args "[]" "[''notes.txt'']"]
  note t0 = unanswered_recorded_invalid_skipped [of example_world ?d0 example_args "[]" "[]"]
  have r9: "map error_message (all_results (run_items example_world example_args [JObject ?d9]))
            = [Some ''Answer folder not found.'']"
    using t9 v9 d9 f9 by auto
  have r4: "map error_message (all_results (run_items example_world example_args [JObject ?d4]))
            = [Some ''No answer images found.'']"
    using t4 v4 d4 f4 l4 n4 by auto
  have r0: "all_results (run_items example_world example_args [JObject ?d0]) = []"
    using t0 v0 by simp
  from v9 d9 f9 r9 v4 d4 f4 l4 n4 r4 v0 r0 show ?thesis by simp
qed

text \<open>
  Claim C9. In an entry recorded because the answer folder is missing, or because the
  folder holds no image file, the modality was never determined: \<open>question_type\<close> and
  \<open>question_path_or_text\<close> are still null, \<open>answer_image_paths\<close> is empty and
  \<open>num_answer_images\<close> is 0 (in both cases), and \<open>total_score\<close> is still 0.
\<close>

theorem unanswered_entry_fields:
  "(valid_item w d \<and> \<not> isdir w (answer_folder w a d)
      \<longrightarrow> (\<exists>e. fst (process_item w a (JObject d)) = Inr (Some e)
               \<and> question_type e = None \<and> question_path_or_text e = JNull
               \<and> answer_image_paths e = [] \<and> num_answer_images e = 0
               \<and> total_score e = PInt 0
               \<and> question_id e = dict_get d ''id'' \<and> question_raw e = dict_get d ''question''))
   \<and> (valid_item w d \<and> isdir w (answer_folder w a d)
       \<and> listdir w (answer_folder w a d) = Inr names \<and> filter is_answer_image names = []
      \<longrightarrow> (\<exists>e. fst (process_item w a (JObject d)) = Inr (Some e)
               \<and> question_type e = None \<and> question_path_or_text e = JNull
               \<and> answer_image_paths e = [] \<and> num_answer_images e = 0
               \<and> total_score e = PInt 0
               \<and> question_id e = dict_get d ''id'' \<and> question_raw e = dict_get d ''question''))"
proof (intro conjI impI)
  assume h: "valid_item w d \<and> \<not> isdir w (answer_folder w a d)"
  then show "\<exists>e. fst (process_item w a (JObject d)) = Inr (Some e)
               \<and> question_type e = None \<and> question_path_or_text e = JNull
               \<and> answer_image_paths e = [] \<and> num_answer_images e = 0
               \<and> total_score e = PInt 0
               \<and> question_id e = dict_get d ''id'' \<and> question_raw e = dict_get d ''question''"
    by (simp add: process_item_no_folder new_entry_def)
next
  assume h: "valid_item w d \<and> isdir w (answer_folder w a d)
       \<and> listdir w (answer_folder w a d) = Inr names \<and> filter is_answer_image names = []"
  then have "answer_image_files_of (answer_folder w a d) names = []"
    by (simp add: no_images_iff)
  with h show "\<exists>e. fst (process_item w a (JObject d)) = Inr (Some e)
               \<and> question_type e = None \<and> question_path_or_text e = JNull
               \<and> answer_image_paths e = [] \<and> num_answer_images e = 0
               \<and> total_score e = PInt 0
               \<and> question_id e = dict_get d ''id'' \<and> question_raw e = dict_get d ''question''"
    by (simp add: process_item_no_images new_entry_def)
qed

text \<open>Two items of the example environment: no folder \<open>q9\<close>, and folder \<open>q4\<close> without images.\<close>

theorem unanswered_entry_fields_witness:
  "valid_item example_world [(''id'', JString ''q9''), (''question'', JString ''fig_ok.png'')]
   \<and> \<not> isdir example_world (answer_folder example_world example_args
           [(''id'', JString ''q9''), (''question'', JString ''fig_ok.png'')])
   \<and> (\<exists>e. fst (process_item example_world example_args
                (JObject [(''id'', JString ''q9''), (''question'', JString ''fig_ok.png'')]))
            = Inr (Some e)
          \<and> question_type e = None \<and> question_path_or_text e = JNull
          \<and> answer_image_paths e = [] \<and> num_answer_images e = 0)
   \<and> valid_item example_world [(''id'', JString ''q4''), (''question'', JString ''fig_ok.png'')]
   \<and> isdir example_world (answer_folder example_world example_args
           [(''id'', JString ''q4''), (''question'', JString ''fig_ok.png'')])
   \<and> listdir example_world (answer_folder example_world example_args
           [(''id'', JString ''q4''), (''question'', JString ''fig_ok.png'')]) = Inr [''notes.txt'']
   \<and> filter is_answer_image [''notes.txt''] = []
   \<and> (\<exists>e. fst (process_item example_world example_args
                (JObject [(''id'', JString ''q4''), (''question'', JString ''fig_ok.png'')]))
            = Inr (Some e)
          \<and> question_type e = None \<and> question_path_or_text e = JNull
          \<and> answer_image_paths e = [] \<and> num_answer_images e = 0)"
proof -
  let ?d9 = "[(''id'', JString ''q9''), (''question'', JString ''fig_ok.png'')] :: (string \<times> unit json) list"
  let ?d4 = "[(''id'', JString ''q4''), (''question'', JString ''fig_ok.png'')] :: (string \<times> unit json) list"
  have v9: "valid_item example_world ?d9" and v4: "valid_item example_world ?d4"
    by (simp_all add: valid_item_def dict_get_def)
  have f9: "answer_folder example_world example_args ?d9 = ''/repo/data/q9''"
    and f4: "answer_folder example_world example_args ?d4 = ''/repo/data/q4''"
    by (simp_all add: answer_folder_def dict_get_def py_str_def path_join_def example_args_def)
  have d9: "\<not> isdir example_world ''/repo/data/q9''" and d4: "isdir example_world ''/repo/data/q4''"
    by (simp_all add: example_world_def)
  have l4: "listdir example_world ''/repo/data/q4'' = Inr [''notes.txt'']"
    by (simp add: example_world_def example_listdir_def)
  have n4: "filter is_answer_image [''notes.txt''] = []"
    by (simp add: is_answer_image_def endswith_any_def endswith_def lower_def lower_char_def)
  have r9: "\<exists>e. fst (process_item example_world example_args (JObject ?d9)) = Inr (Some e)
          \<and> question_type e = None \<and> question_path_or_text e = JNull
          \<and> answer_image_paths e = [] \<and> num_answer_images e = 0"
    using unanswered_entry_fields [of example_world ?d9 example_args "[]"] v9 d9 f9 by auto
  have r4: "\<exists>e. fst (process_item example_world example_args (JObject ?d4)) = Inr (Some e)
          \<and> question_type e = None \<and> question_path_or_text e = JNull
          \<and> answer_image_paths e = [] \<and> num_answer_images e = 0"
    using unanswered_entry_fields [of example_world ?d4 example_args "[''notes.txt'']"]
      v4 d4 f4 l4 n4 by auto
  from v9 d9 f9 r9 v4 d4 f4 l4 n4 r4 show ?thesis by simp
qed

text \<open>
  Claim C5. In every entry of the results of a run, \<open>total_score\<close> is the sum of the
  values of \<open>category_scores\<close> when that is an object (Python's \<open>sum\<close>; for integer values
  the sum of the integers), and it is 0 when \<open>category_scores\<close> is null (or anything
  else than an object). The entries written to the output file are these results.
\<close>

theorem total_score_is_sum:
  "(\<forall>e \<in> set (all_results (main w a)).
      (\<forall>kvs. category_scores e = JObject kvs
         \<longrightarrow> py_sum w (map snd kvs) = Inr (total_score e)
             \<and> (list_all is_integer (map snd kvs)
                 \<longrightarrow> total_score e = PInt (sum_list (map int_value (map snd kvs)))))
      \<and> ((\<forall>kvs. category_scores e \<noteq> JObject kvs) \<longrightarrow> total_score e = PInt 0)
      \<and> (category_scores e = JNull \<longrightarrow> total_score e = PInt 0))
   \<and> (\<forall>out \<in> set (written (events (main w a))). snd out = all_results (main w a))"
proof (intro conjI ballI allI impI)
  fix e
  assume m: "e \<in> set (all_results (main w a))"
  have ok: "total_score_ok w e"
    using main_results [of w a] m by (auto intro: run_items_total_ok)
  {
    fix kvs
    assume c: "category_scores e = JObject kvs"
    with ok show s: "py_sum w (map snd kvs) = Inr (total_score e)"
      by (simp add: total_score_ok_def)
    assume "list_all is_integer (map snd kvs)"
    from py_sum_integers [OF this, of w] s
    show "total_score e = PInt (sum_list (map int_value (map snd kvs)))"
      by simp
  }
  {
    assume "\<forall>kvs. category_scores e \<noteq> JObject kvs"
    with ok show "total_score e = PInt 0"
      by (cases "category_scores e") (simp_all add: total_score_ok_def)
  }
  {
    assume "category_scores e = JNull"
    with ok show "total_score e = PInt 0"
      by (simp add: total_score_ok_def)
  }
next
  fix out
  assume "out \<in> set (written (events (main w a)))"
  with main_written [of w a] show "snd out = all_results (main w a)"
    by auto
qed

text \<open>The run on the example dataset: the first entry has five scores, the second none.\<close>

theorem total_score_is_sum_witness:
  "hd (all_results (main example_world example_args))
     \<in> set (all_results (main example_world example_args))
   \<and> category_scores (hd (all_results (main example_world example_args)))
       = JObject [(''1'', JInt 3), (''2'', JInt 4), (''3'', JInt 2), (''4'', JInt 5), (''5'', JInt 1)]
   \<and> total_score (hd (all_results (main example_world example_args))) = PInt 15
   \<and> all_results (main example_world example_args) ! 1
     \<in> set (all_results (main example_world example_args))
   \<and> category_scores (all_results (main example_world example_args) ! 1) = JNull
   \<and> total_score (all_results (main example_world example_args) ! 1) = PInt 0
   \<and> (''/repo/evaluation.json'', all_results (main example_world example_args))
     \<in> set (written (events (main example_world example_args)))"
proof -
  let ?rs = "all_results (main example_world example_args)"
  let ?kvs = "[(''1'', JInt 3), (''2'', JInt 4), (''3'', JInt 2), (''4'', JInt 5), (''5'', JInt 1)]
              :: (string \<times> unit json) list"
  have n: "length ?rs = 6" by code_simp
  then have m0: "hd ?rs \<in> set ?rs" by (cases ?rs) simp_all
  from n have m1: "?rs ! 1 \<in> set ?rs" by simp
  have c0: "category_scores (hd ?rs) = JObject ?kvs" by code_simp
  have c1: "category_scores (?rs ! 1) = JNull" by code_simp
  have i0: "list_all is_integer (map snd ?kvs)" by simp
  have wr: "fst (hd (written (events (main example_world example_args)))) = ''/repo/evaluation.json''
            \<and> length (written (events (main example_world example_args))) = 1"
    by code_simp
  note t = total_score_is_sum [of example_world example_args]
  from t m0 c0 i0 have t0: "total_score (hd ?rs) = PInt (sum_list (map int_value (map snd ?kvs)))"
    by blast
  then have s0: "total_score (hd ?rs) = PInt 15" by simp
  from t m1 c1 have s1: "total_score (?rs ! 1) = PInt 0" by blast
  from wr obtain out where o: "written (events (main example_world example_args)) = [out]"
    "fst out = ''/repo/evaluation.json''"
    by (cases "written (events (main example_world example_args))") auto
  with t have "snd out = ?rs" by simp
  with o have w: "(''/repo/evaluation.json'', ?rs) \<in> set (written (events (main example_world example_args)))"
    by (cases out) simp
  from m0 c0 s0 m1 c1 s1 w show ?thesis by (intro conjI)
qed

lemma main_load_failure:
  "load_json_file w (questions_file a) = Load_not_found
   \<Longrightarrow> main w a = \<lparr> raised = None, all_results = [],
                     events = [Print (Questions_file_not_found (questions_file a))] \<rparr>"
  "load_json_file w (questions_file a) = Load_decode_error
   \<Longrightarrow> main w a = \<lparr> raised = None, all_results = [],
                     events = [Print (Questions_file_not_json (questions_file a))] \<rparr>"
  by (simp_all add: main_def)

lemma process_item_raises:
  assumes "fst (process_item w a item) = Inl x"
  shows "x = AttributeError \<or> (\<exists>m. x = OSError m) \<or> x = TypeError \<or> x = OverflowError"
proof (cases item)
  case (JObject d)
  note p = assms [unfolded JObject]
  show ?thesis
  proof (cases "valid_item w d")
    case False
    with p show ?thesis by (simp add: process_item_skipped)
  next
    case v: True
    show ?thesis
    proof (cases "isdir w (answer_folder w a d)")
      case False
      with v p show ?thesis by (simp add: process_item_no_folder)
    next
      case i: True
      show ?thesis
      proof (cases "listdir w (answer_folder w a d)")
        case (Inl m)
        with v i p have "x = OSError m" by (simp add: process_item_listdir_error)
        then show ?thesis by simp
      next
        case (Inr names)
        show ?thesis
        proof (cases "answer_image_files_of (answer_folder w a d) names = []")
          case True
          with v i Inr p show ?thesis by (simp add: process_item_no_images)
        next
          case False
          note pe = process_item_evaluated [OF v i Inr False, unfolded Let_def]
          from pe p obtain e scores err where "fst (record_outcome w e scores err) = Inl x"
            by (auto split: option.splits sum.splits)
          then obtain kvs where "scores = JObject kvs" "py_sum w (map snd kvs) = Inl x"
            by (auto simp: record_outcome_raises)
          from py_sum_raises [OF this(2)] show ?thesis by auto
        qed
      qed
    qed
  qed
qed (use assms in \<open>simp_all add: process_item_def\<close>)

text \<open>
  Claim C4. The run on the dataset \<open>/repo/quoted.json\<close>: the model's reply to the first
  question is an object whose score is a string, \<open>sum(scores.values())\<close> raises
  \<open>TypeError\<close> in \<open>main\<close>, outside every \<open>try\<close>. The run ends with this exception: no entry
  is recorded for the question, the second question is never evaluated (one request
  only), and no output file is written.
\<close>

theorem batch_aborts_on_non_numeric_score:
  "raised (main example_world (example_args\<lparr> questions_file := ''/repo/quoted.json'' \<rparr>))
     = Some TypeError
   \<and> all_results (main example_world (example_args\<lparr> questions_file := ''/repo/quoted.json'' \<rparr>))
     = []
   \<and> written (events (main example_world (example_args\<lparr> questions_file := ''/repo/quoted.json'' \<rparr>)))
     = []
   \<and> requests (events (main example_world (example_args\<lparr> questions_file := ''/repo/quoted.json'' \<rparr>)))
     = [ [Text_guidelines, Text_question (JString ''quoted''), Text_part ''Answer screenshot:'',
          Image_url ''data:image/png;base64,AAAA'', Text_instruction Instr_text_single] ]"
  by code_simp

end
